theory Spec2Isabelle
  imports Main "HOL-Library.AList"
begin

section \<open>Go library functions used by the provider code\<close>

text \<open>
  \<^verbatim>\<open>strings.Split(s, sep)\<close> for a separator of one character: the substrings of
  \<open>s\<close> between the separators, always at least one (the empty string gives one empty part).
\<close>

fun Split :: "string \<Rightarrow> char \<Rightarrow> string list" where
  "Split [] sep = [[]]"
| "Split (c # cs) sep =
     (if c = sep then [] # Split cs sep
      else (case Split cs sep of
              [] \<Rightarrow> [[c]]
            | p # ps \<Rightarrow> (c # p) # ps))"

text \<open>
  \<^verbatim>\<open>fmt.Sprintf\<close> restricted to the verb \<^verbatim>\<open>%s\<close> with string operands, which is all
  the ID formatters use. A verb without an operand prints \<^verbatim>\<open>%!s(MISSING)\<close>, operands
  left over at the end are reported in an \<^verbatim>\<open>%!(EXTRA ...)\<close> suffix, as Go does.
\<close>

fun join_with :: "string \<Rightarrow> string list \<Rightarrow> string" where
  "join_with sep [] = []"
| "join_with sep [x] = x"
| "join_with sep (x # y # ys) = x @ sep @ join_with sep (y # ys)"

definition extra_operands :: "string list \<Rightarrow> string" where
  "extra_operands args =
     (if args = [] then []
      else ''%!(EXTRA '' @ join_with '', '' (map (\<lambda>a. ''string='' @ a) args) @ '')'')"

fun Sprintf :: "string \<Rightarrow> string list \<Rightarrow> string" where
  "Sprintf [] args = extra_operands args"
| "Sprintf [c] args = c # extra_operands args"
| "Sprintf (c # d # fs) args =
     (if c = CHR ''%'' \<and> d = CHR ''s'' then
        (case args of
           [] \<Rightarrow> ''%!s(MISSING)'' @ Sprintf fs []
         | a # as \<Rightarrow> a @ Sprintf fs as)
      else c # Sprintf (d # fs) args)"

text \<open>\<^verbatim>\<open>strings.TrimPrefix\<close> and \<^verbatim>\<open>strings.TrimSuffix\<close>.\<close>

definition TrimPrefix :: "string \<Rightarrow> string \<Rightarrow> string" where
  "TrimPrefix s p = (if take (length p) s = p then drop (length p) s else s)"

definition TrimSuffix :: "string \<Rightarrow> string \<Rightarrow> string" where
  "TrimSuffix s p =
     (if length p \<le> length s \<and> drop (length s - length p) s = p
      then take (length s - length p) s else s)"

section \<open>Errors\<close>

text \<open>
  Every \<^verbatim>\<open>fmt.Errorf\<close> and returned error of the modelled functions, as a value; an error that
  wraps another one carries it. \<open>ApiError\<close> is an error that an SDK client or the transport
  returns.
\<close>

datatype error =
    WrongNumberOfParts string nat
  | UnknownSkuTier string string
  | PathSegmentsNotDivisibleBy2 string
  | KeyValueEmpty string string
  | NoSubscriptionID string
  | MissingElement string
  | MoreSegmentsThanRequired string
  | ApiError string
  | CheckingPresence string error
  | ImportAsExists string string
  | CreatingError string error
  | ReadingError string error
  | MakingReadRequest string error
  | DecodingError error
  | ParsingResourceID error
  | CheckingTargetExistence string error
  | NilPointerDereference
  | RetrievingError string error
  | ModuleErrorMessage string
  | WaitingForProvisioning string error
  | TimeoutError
  | UnexpectedStateError string
  | ValidationFailure string string
  | ValidationError string string error
  | FailurePreparingRequest error
  | FailureSendingRequest error
  | FailureRespondingToRequest error
  | NoMorePagesReturned
  | LoadingInitialPage error
  | LoadingNextPage error

section \<open>SQL managed instance: expanding the SKU name\<close>

text \<open>\<^verbatim>\<open>sql.Sku\<close> of the SDK: every field is a pointer, \<open>None\<close> is \<^verbatim>\<open>nil\<close>.\<close>

record Sku =
  sku_Name :: "string option"
  sku_Tier :: "string option"
  sku_Size :: "string option"
  sku_Family :: "string option"
  sku_Capacity :: "int option"

definition expandManagedInstanceSkuName :: "string \<Rightarrow> error + Sku" where
  "expandManagedInstanceSkuName skuName =
     (let parts = Split skuName CHR ''_'' in
      if length parts \<noteq> 2 then Inl (WrongNumberOfParts skuName (length parts))
      else
        if parts ! 0 = ''GP'' then
          Inr \<lparr>sku_Name = Some skuName, sku_Tier = Some ''GeneralPurpose'', sku_Size = None,
               sku_Family = Some (parts ! 1), sku_Capacity = None\<rparr>
        else if parts ! 0 = ''BC'' then
          Inr \<lparr>sku_Name = Some skuName, sku_Tier = Some ''BusinessCritical'', sku_Size = None,
               sku_Family = Some (parts ! 1), sku_Capacity = None\<rparr>
        else Inl (UnknownSkuTier skuName (parts ! 0)))"

section \<open>Cosmos DB: the SQL role assignment ID\<close>

record SqlRoleAssigmentId =
  SubscriptionId :: string
  ResourceGroup :: string
  DatabaseAccountName :: string
  SqlRoleAssignmentName :: string

definition NewSqlRoleAssigmentID :: "string \<Rightarrow> string \<Rightarrow> string \<Rightarrow> string \<Rightarrow> SqlRoleAssigmentId" where
  "NewSqlRoleAssigmentID subscriptionId resourceGroup databaseAccountName sqlRoleAssignmentName =
     \<lparr>SubscriptionId = subscriptionId, ResourceGroup = resourceGroup,
      DatabaseAccountName = databaseAccountName,
      SqlRoleAssignmentName = sqlRoleAssignmentName\<rparr>"

definition SqlRoleAssigmentId_ID :: "SqlRoleAssigmentId \<Rightarrow> string" where
  "SqlRoleAssigmentId_ID id' =
     (let fmtString = ''/subscriptions/%s/resourceGroups/%s/providers/Microsoft.DocumentDB/databaseAccounts/%s/sqlRoleAssignments/%s''
      in Sprintf fmtString [SubscriptionId id', ResourceGroup id', DatabaseAccountName id',
                            SqlRoleAssignmentName id'])"

subsection \<open>The resource ID helper\<close>

text \<open>
  Modelled from the spec: \<^verbatim>\<open>azure.ParseAzureResourceID\<close>, \<^verbatim>\<open>ResourceID.PopSegment\<close> and
  \<^verbatim>\<open>ResourceID.ValidateNoEmptySegments\<close> of the package \<^verbatim>\<open>helpers/azure\<close> are not among the
  sources. They are written here as the parser of key/value path segments that the specification
  and the generated parser tests describe: the ID is trimmed of one leading and one trailing slash
  and split on slashes into an even number of non-empty components, read as key/value pairs;
  the first \<^verbatim>\<open>subscriptions\<close> and the first \<^verbatim>\<open>providers\<close> pair are taken out, every other pair
  goes into \<^verbatim>\<open>Path\<close>, which is a map from key to value (the resources of the sources that use
  the helper index it by key, as in \<^verbatim>\<open>id.Path["webtests"]\<close>), so that a later pair with
  the same key replaces an earlier one; an ID
  without a subscription is refused; the resource group is taken from the key
  \<^verbatim>\<open>resourceGroups\<close> and removed from the map (\<open>resourceGroupOf\<close>). Keys are compared exactly
  (the generated test expects an upper-cased ID to be refused); any tolerance of the helper
  for other spellings of a key, URL escapes and query strings are outside the model: the input
  is taken as a plain path. The Go map is an association list with distinct keys. The second
  equation of \<open>componentLoop\<close> is never reached from \<open>ParseAzureResourceID\<close>, which refuses
  an odd number of components before the loop.
\<close>

record ResourceID =
  rid_SubscriptionID :: string
  rid_ResourceGroup :: string
  rid_Provider :: string
  rid_Path :: "(string \<times> string) list"

fun componentLoop ::
  "string list \<Rightarrow> string \<Rightarrow> string \<Rightarrow> (string \<times> string) list \<Rightarrow>
   error + (string \<times> string \<times> (string \<times> string) list)" where
  "componentLoop [] subscriptionID provider componentMap =
     Inr (subscriptionID, provider, componentMap)"
| "componentLoop [key] subscriptionID provider componentMap =
     Inl (PathSegmentsNotDivisibleBy2 key)"
| "componentLoop (key # value # rest) subscriptionID provider componentMap =
     (if key = [] \<or> value = [] then Inl (KeyValueEmpty key value)
      else if key = ''subscriptions'' \<and> subscriptionID = [] then
        componentLoop rest value provider componentMap
      else if key = ''providers'' \<and> provider = [] then
        componentLoop rest subscriptionID value componentMap
      else componentLoop rest subscriptionID provider (AList.update key value componentMap))"

definition resourceGroupOf :: "(string \<times> string) list \<Rightarrow> string \<times> (string \<times> string) list" where
  "resourceGroupOf componentMap =
     (case map_of componentMap ''resourceGroups'' of
        Some resourceGroup \<Rightarrow> (resourceGroup, AList.delete ''resourceGroups'' componentMap)
      | None \<Rightarrow> ([], componentMap))"

definition ParseAzureResourceID :: "string \<Rightarrow> error + ResourceID" where
  "ParseAzureResourceID id' =
     (let path = TrimSuffix (TrimPrefix id' ''/'') ''/'';
          components = Split path CHR ''/''
      in if length components mod 2 \<noteq> 0 then Inl (PathSegmentsNotDivisibleBy2 path)
         else
           (case componentLoop components [] [] [] of
              Inl e \<Rightarrow> Inl e
            | Inr (subscriptionID, provider, componentMap) \<Rightarrow>
                if subscriptionID = [] then Inl (NoSubscriptionID path)
                else
                  Inr \<lparr>rid_SubscriptionID = subscriptionID,
                       rid_ResourceGroup = fst (resourceGroupOf componentMap),
                       rid_Provider = provider,
                       rid_Path = snd (resourceGroupOf componentMap)\<rparr>))"

text \<open>\<^verbatim>\<open>PopSegment\<close> returns the value of a key and the ID with the key deleted from its map.\<close>

definition PopSegment :: "ResourceID \<Rightarrow> string \<Rightarrow> error + (string \<times> ResourceID)" where
  "PopSegment id' name =
     (case map_of (rid_Path id') name of
        None \<Rightarrow> Inl (MissingElement name)
      | Some segment \<Rightarrow> Inr (segment, id'\<lparr>rid_Path := AList.delete name (rid_Path id')\<rparr>))"

definition ValidateNoEmptySegments :: "ResourceID \<Rightarrow> string \<Rightarrow> error option" where
  "ValidateNoEmptySegments id' sourceId =
     (if length (rid_Path id') = 0 then None else Some (MoreSegmentsThanRequired sourceId))"

subsection \<open>The parser\<close>

definition SqlRoleAssigmentID :: "string \<Rightarrow> error + SqlRoleAssigmentId" where
  "SqlRoleAssigmentID input =
     (case ParseAzureResourceID input of
        Inl err \<Rightarrow> Inl err
      | Inr id0 \<Rightarrow>
          if rid_SubscriptionID id0 = [] then Inl (MissingElement ''subscriptions'')
          else if rid_ResourceGroup id0 = [] then Inl (MissingElement ''resourceGroups'')
          else
            (case PopSegment id0 ''databaseAccounts'' of
               Inl err \<Rightarrow> Inl err
             | Inr (databaseAccountName, id1) \<Rightarrow>
                 (case PopSegment id1 ''sqlRoleAssignments'' of
                    Inl err \<Rightarrow> Inl err
                  | Inr (sqlRoleAssignmentName, id2) \<Rightarrow>
                      (case ValidateNoEmptySegments id2 input of
                         Some err \<Rightarrow> Inl err
                       | None \<Rightarrow>
                           Inr \<lparr>SubscriptionId = rid_SubscriptionID id0,
                                ResourceGroup = rid_ResourceGroup id0,
                                DatabaseAccountName = databaseAccountName,
                                SqlRoleAssignmentName = sqlRoleAssignmentName\<rparr>))))"




section \<open>SQL: the managed instance Azure Active Directory administrator ID\<close>

text \<open>
  Modelled from the spec: the formatter of \<^verbatim>\<open>ManagedInstanceAzureActiveDirectoryAdministratorId\<close>
  is generated code that is not among the sources; only its test is. It is written here after
  the specification's words and the generated template that \<^verbatim>\<open>SqlRoleAssigmentId\<close> follows, with the
  path the test \<^verbatim>\<open>TestManagedInstanceAzureActiveDirectoryAdministratorIDFormatter\<close> expects.
\<close>

record ManagedInstanceAzureActiveDirectoryAdministratorId =
  mi_SubscriptionId :: string
  mi_ResourceGroup :: string
  mi_ManagedInstanceName :: string
  mi_AdministratorName :: string

definition NewManagedInstanceAzureActiveDirectoryAdministratorID ::
  "string \<Rightarrow> string \<Rightarrow> string \<Rightarrow> string \<Rightarrow> ManagedInstanceAzureActiveDirectoryAdministratorId" where
  "NewManagedInstanceAzureActiveDirectoryAdministratorID subscriptionId resourceGroup managedInstanceName administratorName =
     \<lparr>mi_SubscriptionId = subscriptionId, mi_ResourceGroup = resourceGroup,
      mi_ManagedInstanceName = managedInstanceName, mi_AdministratorName = administratorName\<rparr>"

definition ManagedInstanceAzureActiveDirectoryAdministratorId_ID ::
  "ManagedInstanceAzureActiveDirectoryAdministratorId \<Rightarrow> string" where
  "ManagedInstanceAzureActiveDirectoryAdministratorId_ID id' =
     (let fmtString = ''/subscriptions/%s/resourceGroups/%s/providers/Microsoft.Sql/managedInstances/%s/administrators/%s''
      in Sprintf fmtString [mi_SubscriptionId id', mi_ResourceGroup id', mi_ManagedInstanceName id',
                            mi_AdministratorName id'])"

section \<open>Resource declarations\<close>

text \<open>
  A \<^verbatim>\<open>pluginsdk.Resource\<close> literal: each operation is a function value or \<^verbatim>\<open>nil\<close>, here the
  name of the function assigned or \<open>None\<close>, and the schema is listed by its top-level keys.
  A typed resource (a type implementing \<^verbatim>\<open>sdk.Resource\<close>) is listed by the methods it has:
  its importer is its \<^verbatim>\<open>IDValidationFunc\<close>, and it has an update only when it has an
  \<^verbatim>\<open>Update\<close> method.
\<close>

record Resource =
  Create :: "string option"
  Read :: "string option"
  Update :: "string option"
  Delete :: "string option"
  Importer :: "string option"
  Schema :: "string list"

definition resourceCosmosDbRoleAssignment :: Resource where
  "resourceCosmosDbRoleAssignment =
     \<lparr>Create = Some ''resourceCosmosDbRoleAssignmentCreateUpdate'',
      Read = Some ''resourceCosmosDbRoleAssignmentRead'',
      Update = None,
      Delete = Some ''resourceCosmosDbRoleAssignmentDelete'',
      Importer = Some ''pluginsdk.DefaultImporter'',
      Schema = [''name'', ''cosmosdb_account_name'', ''resource_group_name'', ''scope'',
                ''role_definition_id'', ''role_definition_name'', ''principal_id'']\<rparr>"

definition TargetResource :: Resource where
  "TargetResource =
     \<lparr>Create = Some ''TargetResource.Create'',
      Read = Some ''TargetResource.Read'',
      Update = None,
      Delete = Some ''TargetResource.Delete'',
      Importer = Some ''TargetResource.IDValidationFunc'',
      Schema = [''name'', ''resource_group_name'', ''location'', ''parent_resource_type'',
                ''parent_name'', ''parent_provider_namespace'']\<rparr>"

definition resourceKubernetesArcExtension :: Resource where
  "resourceKubernetesArcExtension =
     \<lparr>Create = Some ''resourceKubernetesArcExtensionCreate'',
      Read = Some ''resourceKubernetesArcExtensionRead'',
      Update = None,
      Delete = Some ''resourceKubernetesArcExtensionDelete'',
      Importer = Some ''pluginsdk.ImporterValidatingResourceId'',
      Schema = [''name'', ''cluster_name'', ''location'', ''resource_group_name'']\<rparr>"

definition resourceAutomationPowerShell72Module :: Resource where
  "resourceAutomationPowerShell72Module =
     \<lparr>Create = Some ''resourceAutomationPowerShell72ModuleCreate'',
      Read = Some ''resourceAutomationPowerShell72ModuleRead'',
      Update = Some ''resourceAutomationPowerShell72ModuleUpdate'',
      Delete = Some ''resourceAutomationPowerShell72ModuleDelete'',
      Importer = Some ''pluginsdk.ImporterValidatingResourceId'',
      Schema = [''name'', ''automation_account_name'', ''resource_group_name'',
                ''module_link'']\<rparr>"

definition resourceArmSqlMiServer :: Resource where
  "resourceArmSqlMiServer =
     \<lparr>Create = Some ''resourceArmSqlMiServerCreateUpdate'',
      Read = Some ''resourceArmSqlMiServerRead'',
      Update = Some ''resourceArmSqlMiServerCreateUpdate'',
      Delete = Some ''resourceArmSqlMiServerDelete'',
      Importer = Some ''pluginsdk.ImporterValidatingResourceId'',
      Schema = [''name'', ''location'', ''resource_group_name'', ''sku_name'',
                ''administrator_login'', ''administrator_login_password'', ''vcores'',
                ''storage_size_in_gb'', ''license_type'', ''subnet_id'', ''collation'',
                ''public_data_endpoint_enabled'', ''minimum_tls_version'', ''proxy_override'',
                ''timezone_id'', ''fqdn'', ''dns_zone_partner_id'', ''identity'',
                ''azuread_administrator'', ''tags'']\<rparr>"

definition resourceArmApplicationInsightsWorkBook :: Resource where
  "resourceArmApplicationInsightsWorkBook =
     \<lparr>Create = Some ''resourceArmApplicationInsightsWorkBookCreateUpdate'',
      Read = Some ''resourceArmApplicationInsightsWorkBookRead'',
      Update = Some ''resourceArmApplicationInsightsWorkBookCreateUpdate'',
      Delete = Some ''resourceArmApplicationInsightsWorkBookDelete'',
      Importer = Some ''schema.ImportStatePassthrough'',
      Schema = [''name'', ''resource_group_name'', ''application_insights_id'', ''location'',
                ''kind'', ''tags'', ''workbook'']\<rparr>"

definition resourceKubernetesMaintenanceConfiguration :: Resource where
  "resourceKubernetesMaintenanceConfiguration =
     \<lparr>Create = Some ''resourceKubernetesMaintenanceConfigurationCreate'',
      Read = Some ''resourceKubernetesMaintenanceConfigurationRead'',
      Update = Some ''resourceKubernetesMaintenanceConfigurationUpdate'',
      Delete = Some ''resourceKubernetesMaintenanceConfigurationDelete'',
      Importer = Some ''pluginsdk.ImporterValidatingResourceId'',
      Schema = [''name'', ''kubernetes_cluster_id'', ''maintenance_allowed'',
                ''maintenance_not_allowed_window'']\<rparr>"

definition resourceFunctionAppHostKeys :: Resource where
  "resourceFunctionAppHostKeys =
     \<lparr>Create = Some ''resourceFunctionAppHostKeysCreateUpdate'',
      Read = Some ''resourceFunctionAppHostKeysRead'',
      Update = Some ''resourceFunctionAppHostKeysCreateUpdate'',
      Delete = Some ''resourceFunctionAppHostKeysDelete'',
      Importer = None,
      Schema = [''name'', ''resource_group_name'', ''primary_key'', ''host_keys'']\<rparr>"

definition resourceFirewallPolicy :: Resource where
  "resourceFirewallPolicy =
     \<lparr>Create = Some ''resourceFirewallPolicyCreateUpdate'',
      Read = Some ''resourceFirewallPolicyRead'',
      Update = Some ''resourceFirewallPolicyCreateUpdate'',
      Delete = Some ''resourceFirewallPolicyDelete'',
      Importer = Some ''pluginsdk.ImporterValidatingResourceId'',
      Schema = [''name'', ''resource_group_name'', ''sku'', ''location'', ''base_policy_id'',
                ''dns'', ''threat_intelligence_mode'', ''threat_intelligence_allowlist'',
                ''intrusion_detection'', ''identity'', ''tls_certificate'', ''child_policies'',
                ''firewalls'', ''rule_collection_groups'', ''private_ip_ranges'', ''tags'']\<rparr>"

definition AnomalyAlertResource :: Resource where
  "AnomalyAlertResource =
     \<lparr>Create = Some ''AnomalyAlertResource.Create'',
      Read = Some ''AnomalyAlertResource.Read'',
      Update = Some ''AnomalyAlertResource.Update'',
      Delete = Some ''AnomalyAlertResource.Delete'',
      Importer = Some ''AnomalyAlertResource.IDValidationFunc'',
      Schema = [''name'', ''email_subject'', ''email_addresses'', ''message'']\<rparr>"

text \<open>The resource declarations of the sources, each under the name of its declaring function or type.\<close>

definition declared_resources :: "(string \<times> Resource) list" where
  "declared_resources =
     [(''resourceCosmosDbRoleAssignment'', resourceCosmosDbRoleAssignment),
      (''TargetResource'', TargetResource),
      (''resourceKubernetesArcExtension'', resourceKubernetesArcExtension),
      (''resourceAutomationPowerShell72Module'', resourceAutomationPowerShell72Module),
      (''resourceArmSqlMiServer'', resourceArmSqlMiServer),
      (''resourceArmApplicationInsightsWorkBook'', resourceArmApplicationInsightsWorkBook),
      (''resourceKubernetesMaintenanceConfiguration'', resourceKubernetesMaintenanceConfiguration),
      (''resourceFunctionAppHostKeys'', resourceFunctionAppHostKeys),
      (''resourceFirewallPolicy'', resourceFirewallPolicy),
      (''AnomalyAlertResource'', AnomalyAlertResource)]"

section \<open>Resource operations against the remote API\<close>

subsection \<open>The SDK client, the remote side and the Terraform state\<close>

text \<open>An \<^verbatim>\<open>*http.Response\<close> is \<^verbatim>\<open>nil\<close> or carries a status code.\<close>

type_synonym http_response = "nat option"

text \<open>
  Modelled from the spec: \<^verbatim>\<open>response.WasNotFound\<close> (go-azure-helpers) and
  \<^verbatim>\<open>utils.ResponseWasNotFound\<close> are not among the sources. The existence check reports
  not-found for a response that is present and has the HTTP status 404.
\<close>

definition WasNotFound :: "http_response \<Rightarrow> bool" where
  "WasNotFound resp = (resp = Some 404)"

text \<open>
  The result of an SDK read: the HTTP response and the decoded model, beside the error. The
  generated client of a resource type is a parameter of every operation: its calls are functions
  of the state \<open>'r\<close> of the remote side, which a call may change, and it formats and parses the
  resource ID \<open>'i\<close> of its type. Every call an operation issues is appended to the log of the
  world it runs in.
\<close>

record 'm sdk_response =
  HttpResponse :: http_response
  Model :: "'m option"

record ('r, 'i, 'm, 'p) sdk_client =
  sdk_Get :: "'r \<Rightarrow> 'i \<Rightarrow> ('m sdk_response \<times> error option) \<times> 'r"
  sdk_CreateOrUpdate :: "'r \<Rightarrow> 'i \<Rightarrow> 'p \<Rightarrow> error option \<times> 'r"
  sdk_ID :: "'i \<Rightarrow> string"
  sdk_ParseID :: "string \<Rightarrow> error + 'i"

datatype 'i call = GetCall 'i | CreateOrUpdateCall 'i

record ('r, 'i) world =
  remote :: 'r
  calls :: "'i call list"

definition doGet ::
  "('r, 'i, 'm, 'p) sdk_client \<Rightarrow> ('r, 'i) world \<Rightarrow> 'i \<Rightarrow>
   ('m sdk_response \<times> error option) \<times> ('r, 'i) world" where
  "doGet client w id' =
     (case sdk_Get client (remote w) id' of
        (result, r') \<Rightarrow> (result, \<lparr>remote = r', calls = calls w @ [GetCall id']\<rparr>))"

definition doCreateOrUpdate ::
  "('r, 'i, 'm, 'p) sdk_client \<Rightarrow> ('r, 'i) world \<Rightarrow> 'i \<Rightarrow> 'p \<Rightarrow>
   error option \<times> ('r, 'i) world" where
  "doCreateOrUpdate client w id' parameters =
     (case sdk_CreateOrUpdate client (remote w) id' parameters of
        (err, r') \<Rightarrow> (err, \<lparr>remote = r', calls = calls w @ [CreateOrUpdateCall id']\<rparr>))"

text \<open>
  \<^verbatim>\<open>pluginsdk.ResourceData\<close>: the ID of the resource in the Terraform state (empty once the
  resource is removed from the state) and its string attributes. \<^verbatim>\<open>d.Get(k).(string)\<close> of an
  unset attribute is the empty string.
\<close>

record ResourceData =
  Id :: string
  attrs :: "string \<rightharpoonup> string"

definition GetString :: "ResourceData \<Rightarrow> string \<Rightarrow> string" where
  "GetString d k = (case attrs d k of None \<Rightarrow> [] | Some v \<Rightarrow> v)"

definition SetString :: "ResourceData \<Rightarrow> string \<Rightarrow> string \<Rightarrow> ResourceData" where
  "SetString d k v = d\<lparr>attrs := (attrs d)(k \<mapsto> v)\<rparr>"

text \<open>
  Modelled from the spec: \<^verbatim>\<open>metadata.MarkAsGone\<close> of the typed SDK is not among the sources.
  It marks the resource as gone, that is, removes it from the Terraform state by clearing its
  ID, as \<^verbatim>\<open>d.SetId("")\<close> does in the untyped reads, and returns no error.
\<close>

definition MarkAsGone :: "ResourceData \<Rightarrow> error option \<times> ResourceData" where
  "MarkAsGone d = (None, d\<lparr>Id := []\<rparr>)"

subsection \<open>Cost management views\<close>

record ScopedViewId =
  Scope :: string
  ViewName :: string

definition NewScopedViewID :: "string \<Rightarrow> string \<Rightarrow> ScopedViewId" where
  "NewScopedViewID scope viewName = \<lparr>Scope = scope, ViewName = viewName\<rparr>"

text \<open>
  \<open>viewProps d etag\<close> stands for the \<^verbatim>\<open>views.View\<close> that
  \<^verbatim>\<open>createOrUpdateCostManagementView\<close> builds from the configuration and the ETag.
\<close>

definition createOrUpdateCostManagementView ::
  "('r, ScopedViewId, 'm, 'p) sdk_client \<Rightarrow> (ResourceData \<Rightarrow> string option \<Rightarrow> 'p) \<Rightarrow>
   ('r, ScopedViewId) world \<Rightarrow> ResourceData \<Rightarrow> ScopedViewId \<Rightarrow> string option \<Rightarrow>
   error option \<times> ('r, ScopedViewId) world" where
  "createOrUpdateCostManagementView client viewProps w d id' etag =
     doCreateOrUpdate client w id' (viewProps d etag)"

definition createFunc ::
  "string \<Rightarrow> string \<Rightarrow> ('r, ScopedViewId, 'm, 'p) sdk_client \<Rightarrow>
   (ResourceData \<Rightarrow> string option \<Rightarrow> 'p) \<Rightarrow> ('r, ScopedViewId) world \<Rightarrow> ResourceData \<Rightarrow>
   error option \<times> ('r, ScopedViewId) world \<times> ResourceData" where
  "createFunc resourceName scopeFieldName client viewProps w d =
     (let id' = NewScopedViewID (GetString d scopeFieldName) (GetString d ''name'')
      in case doGet client w id' of
           ((existing, err), w1) \<Rightarrow>
             if err \<noteq> None \<and> \<not> WasNotFound (HttpResponse existing) then
               (Some (CheckingPresence (sdk_ID client id') (the err)), w1, d)
             else if \<not> WasNotFound (HttpResponse existing) then
               (Some (ImportAsExists resourceName (sdk_ID client id')), w1, d)
             else
               (case createOrUpdateCostManagementView client viewProps w1 d id' None of
                  (Some e, w2) \<Rightarrow> (Some (CreatingError (sdk_ID client id') e), w2, d)
                | (None, w2) \<Rightarrow> (None, w2, d\<lparr>Id := sdk_ID client id'\<rparr>)))"

text \<open>
  \<open>setAttributes\<close> stands for the assignments of the success branch of the read, which copy
  the name, the scope and the properties of the view into the state.
\<close>

definition readFunc ::
  "string \<Rightarrow> ('r, ScopedViewId, 'm, 'p) sdk_client \<Rightarrow>
   (ScopedViewId \<Rightarrow> 'm sdk_response \<Rightarrow> ResourceData \<Rightarrow> ResourceData) \<Rightarrow>
   ('r, ScopedViewId) world \<Rightarrow> ResourceData \<Rightarrow>
   error option \<times> ('r, ScopedViewId) world \<times> ResourceData" where
  "readFunc scopeFieldName client setAttributes w d =
     (case sdk_ParseID client (Id d) of
        Inl err \<Rightarrow> (Some err, w, d)
      | Inr id' \<Rightarrow>
          (case doGet client w id' of
             ((resp, Some err), w1) \<Rightarrow>
               if WasNotFound (HttpResponse resp) then
                 (case MarkAsGone d of (r, d') \<Rightarrow> (r, w1, d'))
               else (Some (ReadingError (sdk_ID client id') err), w1, d)
           | ((resp, None), w1) \<Rightarrow>
               (None, w1,
                setAttributes id' resp
                  (SetString (SetString d ''name'' (ViewName id')) scopeFieldName (Scope id')))))"

subsection \<open>Chaos Studio targets\<close>

record TargetResourceModel =
  trm_Name :: string
  trm_ResourceGroup :: string
  trm_ParentResourceType :: string
  trm_ParentName :: string
  trm_ParentProviderNamespace :: string
  trm_Location :: string

record TargetId =
  tid_SubscriptionId :: string
  tid_ResourceGroupName :: string
  tid_ParentProviderNamespace :: string
  tid_ParentResourceType :: string
  tid_ParentResourceName :: string
  tid_TargetName :: string

definition NewTargetID ::
  "string \<Rightarrow> string \<Rightarrow> string \<Rightarrow> string \<Rightarrow> string \<Rightarrow> string \<Rightarrow> TargetId" where
  "NewTargetID subscriptionId resourceGroupName parentProviderNamespace parentResourceType
     parentResourceName targetName =
     \<lparr>tid_SubscriptionId = subscriptionId, tid_ResourceGroupName = resourceGroupName,
      tid_ParentProviderNamespace = parentProviderNamespace,
      tid_ParentResourceType = parentResourceType,
      tid_ParentResourceName = parentResourceName, tid_TargetName = targetName\<rparr>"

record Indentity =
  ind_Type :: "string option"
  ind_Subject :: "string option"

record TargetProperties =
  Identities :: "Indentity list option"
  AgentProfileId :: "string option"

record Target =
  tgt_Location :: "string option"
  tgt_Properties :: "TargetProperties option"

text \<open>
  \<open>decode\<close> and \<open>encode\<close> are \<^verbatim>\<open>metadata.Decode\<close> and \<^verbatim>\<open>metadata.Encode\<close> of the typed
  SDK, \<open>NormalizeNilable\<close> is \<^verbatim>\<open>location.NormalizeNilable\<close>; none is among the sources, so
  they are parameters. Dereferencing a \<^verbatim>\<open>nil\<close> pointer panics.
\<close>

definition TargetResource_Create ::
  "('r, TargetId, Target, Target) sdk_client \<Rightarrow> (ResourceData \<Rightarrow> error + TargetResourceModel) \<Rightarrow>
   string \<Rightarrow> ('r, TargetId) world \<Rightarrow> ResourceData \<Rightarrow>
   error option \<times> ('r, TargetId) world \<times> ResourceData" where
  "TargetResource_Create client decode subscriptionId w d =
     (case decode d of
        Inl err \<Rightarrow> (Some (DecodingError err), w, d)
      | Inr model \<Rightarrow>
          (let id' = NewTargetID subscriptionId (trm_ResourceGroup model)
                       (trm_ParentProviderNamespace model) (trm_ParentResourceType model)
                       (trm_ParentName model) (trm_Name model)
           in case doGet client w id' of
                ((existing, err), w1) \<Rightarrow>
                  if err \<noteq> None \<and> \<not> WasNotFound (HttpResponse existing) then
                    (Some (CheckingPresence (sdk_ID client id') (the err)), w1, d)
                  else if \<not> WasNotFound (HttpResponse existing) then
                    (Some (ImportAsExists ''azurerm_chaos_target'' (sdk_ID client id')), w1, d)
                  else
                    (let target =
                           (if tid_TargetName id' = ''Microsoft-Agent'' then
                              \<lparr>tgt_Location = Some (trm_Location model),
                               tgt_Properties = Some
                                 \<lparr>Identities = Some
                                    [\<lparr>ind_Type = Some ''CertificateSubjectIssuer'',
                                      ind_Subject = Some ''CN=example.subject''\<rparr>],
                                  AgentProfileId = None\<rparr>\<rparr>
                            else
                              \<lparr>tgt_Location = Some (trm_Location model),
                               tgt_Properties = Some \<lparr>Identities = None, AgentProfileId = None\<rparr>\<rparr>)
                     in case doCreateOrUpdate client w1 id' target of
                          (Some e, w2) \<Rightarrow> (Some (CreatingError (sdk_ID client id') e), w2, d)
                        | (None, w2) \<Rightarrow> (None, w2, d\<lparr>Id := sdk_ID client id'\<rparr>))))"

definition TargetResource_Read ::
  "('r, TargetId, Target, Target) sdk_client \<Rightarrow>
   (TargetResourceModel \<Rightarrow> ResourceData \<Rightarrow> error option \<times> ResourceData) \<Rightarrow>
   (string option \<Rightarrow> string) \<Rightarrow> ('r, TargetId) world \<Rightarrow> ResourceData \<Rightarrow>
   error option \<times> ('r, TargetId) world \<times> ResourceData" where
  "TargetResource_Read client encode NormalizeNilable w d =
     (case sdk_ParseID client (Id d) of
        Inl err \<Rightarrow> (Some (ParsingResourceID err), w, d)
      | Inr id' \<Rightarrow>
          (case doGet client w id' of
             ((resp, Some err), w1) \<Rightarrow>
               if \<not> WasNotFound (HttpResponse resp) then
                 (case MarkAsGone d of (r, d') \<Rightarrow> (r, w1, d'))
               else (Some (CheckingTargetExistence (tid_TargetName id') err), w1, d)
           | ((resp, None), w1) \<Rightarrow>
               (case Model resp of
                  None \<Rightarrow> (Some NilPointerDereference, w1, d)
                | Some m \<Rightarrow>
                    (case tgt_Location m of
                       None \<Rightarrow> (Some NilPointerDereference, w1, d)
                     | Some loc \<Rightarrow>
                         (let state =
                                \<lparr>trm_Name = tid_TargetName id',
                                 trm_ResourceGroup = tid_ResourceGroupName id',
                                 trm_ParentResourceType = tid_ParentResourceType id',
                                 trm_ParentName = tid_ParentResourceName id',
                                 trm_ParentProviderNamespace = tid_ParentProviderNamespace id',
                                 trm_Location = NormalizeNilable (Some loc)\<rparr>
                          in case encode state d of (r, d') \<Rightarrow> (r, w1, d'))))))"

subsection \<open>Cosmos DB SQL role assignments\<close>

record SQLRoleAssignmentResource =
  sra_RoleDefinitionID :: "string option"
  sra_Scope :: "string option"
  sra_PrincipalID :: "string option"

record SQLRoleAssignmentGetResults =
  srg_Name :: "string option"
  srg_SQLRoleAssignmentResource :: "SQLRoleAssignmentResource option"

text \<open>
  \<^verbatim>\<open>d.Set\<close> of a \<^verbatim>\<open>nil\<close> string pointer stores the empty string. The fields of the result
  are read from the response model; a failed call returns the zero value of the result.
\<close>

definition SetStringPtr :: "ResourceData \<Rightarrow> string \<Rightarrow> string option \<Rightarrow> ResourceData" where
  "SetStringPtr d k v = SetString d k (case v of None \<Rightarrow> [] | Some x \<Rightarrow> x)"

definition resourceCosmosDbRoleAssignmentRead ::
  "('r, SqlRoleAssigmentId, SQLRoleAssignmentGetResults, 'p) sdk_client \<Rightarrow>
   ('r, SqlRoleAssigmentId) world \<Rightarrow> ResourceData \<Rightarrow>
   error option \<times> ('r, SqlRoleAssigmentId) world \<times> ResourceData" where
  "resourceCosmosDbRoleAssignmentRead client w d =
     (case SqlRoleAssigmentID (Id d) of
        Inl err \<Rightarrow> (Some err, w, d)
      | Inr id' \<Rightarrow>
          (case doGet client w id' of
             ((resp, Some err), w1) \<Rightarrow>
               (Some (RetrievingError (SqlRoleAssigmentId_ID id') err), w1, d)
           | ((resp, None), w1) \<Rightarrow>
               (let name = (case Model resp of None \<Rightarrow> None | Some m \<Rightarrow> srg_Name m);
                    d1 = SetStringPtr d ''name'' name
                in case (case Model resp of
                           None \<Rightarrow> None
                         | Some m \<Rightarrow> srg_SQLRoleAssignmentResource m) of
                     None \<Rightarrow> (None, w1, d1)
                   | Some v \<Rightarrow>
                       (None, w1,
                        SetStringPtr
                          (SetStringPtr (SetStringPtr d1 ''scope'' (sra_Scope v))
                             ''principal_id'' (sra_PrincipalID v))
                          ''role_definition_id'' (sra_RoleDefinitionID v)))))"

subsection \<open>Waiting for a state\<close>

text \<open>
  Modelled from the spec: \<^verbatim>\<open>pluginsdk.StateChangeConf\<close> and its \<^verbatim>\<open>WaitForStateContext\<close> belong
  to the Terraform plugin SDK and are not among the sources. As the specification of the module
  resource describes it, the wait calls \<^verbatim>\<open>Refresh\<close> again and again: an error of the refresh
  ends the wait with that error, a state among \<^verbatim>\<open>Target\<close> ends it with the refreshed object, a
  state among \<^verbatim>\<open>Pending\<close> lets it go on, any other state ends it with an unexpected-state
  error, and when the timeout elapses it ends with a timeout error. Time is not modelled:
  \<open>Timeout\<close> is the number of refreshes that complete before the timeout elapses.
\<close>

record ('w, 'res) StateChangeConf =
  Pending :: "string list"
  Target :: "string list"
  Refresh :: "'w \<Rightarrow> ('res \<times> string \<times> error option) \<times> 'w"
  Timeout :: nat

fun waitLoop ::
  "('w, 'res) StateChangeConf \<Rightarrow> nat \<Rightarrow> 'w \<Rightarrow> (error + 'res) \<times> 'w" where
  "waitLoop conf 0 w = (Inl TimeoutError, w)"
| "waitLoop conf (Suc n) w =
     (case Refresh conf w of
        ((res, currentState, err), w1) \<Rightarrow>
          (case err of
             Some e \<Rightarrow> (Inl e, w1)
           | None \<Rightarrow>
               if currentState \<in> set (Target conf) then (Inr res, w1)
               else if currentState \<in> set (Pending conf) then waitLoop conf n w1
               else (Inl (UnexpectedStateError currentState), w1)))"

definition WaitForStateContext ::
  "('w, 'res) StateChangeConf \<Rightarrow> 'w \<Rightarrow> (error + 'res) \<times> 'w" where
  "WaitForStateContext conf w = waitLoop conf (Timeout conf) w"

text \<open>
  The observations of a wait: what each of the first \<open>n\<close> refreshes returns as state and error,
  and the world it leaves. This is the vocabulary of the statements about polling, not code.
\<close>

fun refreshRuns ::
  "('w \<Rightarrow> ('res \<times> string \<times> error option) \<times> 'w) \<Rightarrow> nat \<Rightarrow> 'w \<Rightarrow>
   (string \<times> error option \<times> 'w) list" where
  "refreshRuns refresh 0 w = []"
| "refreshRuns refresh (Suc n) w =
     (case refresh w of
        ((res, currentState, err), w1) \<Rightarrow> (currentState, err, w1) # refreshRuns refresh n w1)"

definition obs_state :: "string \<times> error option \<times> 'w \<Rightarrow> string" where
  "obs_state ob = fst ob"

definition obs_error :: "string \<times> error option \<times> 'w \<Rightarrow> error option" where
  "obs_error ob = fst (snd ob)"

definition obs_world :: "string \<times> error option \<times> 'w \<Rightarrow> 'w" where
  "obs_world ob = snd (snd ob)"

text \<open>An observation after which the wait goes on: no error, and a pending state that is no target.\<close>

definition pending_observation ::
  "('w, 'res) StateChangeConf \<Rightarrow> string \<times> error option \<times> 'w \<Rightarrow> bool" where
  "pending_observation conf ob \<longleftrightarrow>
     obs_error ob = None \<and> obs_state ob \<notin> set (Target conf) \<and> obs_state ob \<in> set (Pending conf)"

subsection \<open>Automation PowerShell 7.2 modules\<close>

record ModuleErrorInfo =
  mei_Message :: "string option"

record ModuleProperties =
  mp_IsGlobal :: "bool option"
  mp_ProvisioningState :: "string option"
  mp_Error :: "ModuleErrorInfo option"

record Module =
  mod_Properties :: "ModuleProperties option"

record PowerShell72ModuleId =
  psm_SubscriptionId :: string
  psm_ResourceGroupName :: string
  psm_AutomationAccountName :: string
  psm_PowerShell72ModuleName :: string

definition NewPowerShell72ModuleID ::
  "string \<Rightarrow> string \<Rightarrow> string \<Rightarrow> string \<Rightarrow> PowerShell72ModuleId" where
  "NewPowerShell72ModuleID subscriptionId resourceGroupName automationAccountName moduleName =
     \<lparr>psm_SubscriptionId = subscriptionId, psm_ResourceGroupName = resourceGroupName,
      psm_AutomationAccountName = automationAccountName,
      psm_PowerShell72ModuleName = moduleName\<rparr>"

text \<open>
  Modelled from the spec: the provisioning states of the SDK package \<^verbatim>\<open>module\<close> are not
  among the sources. They are string constants; the value of each, such as \<^verbatim>\<open>Succeeded\<close>, is
  its name without the prefix \<^verbatim>\<open>ModuleProvisioningState\<close>. The two lists are the
  \<^verbatim>\<open>Pending\<close> and \<^verbatim>\<open>Target\<close> lists of the create operation, in the order of the source.
\<close>

definition pendingProvisioningStates :: "string list" where
  "pendingProvisioningStates =
     [''ActivitiesStored'', ''ConnectionTypeImported'', ''ContentDownloaded'',
      ''ContentRetrieved'', ''ContentStored'', ''ContentValidated'', ''Created'', ''Creating'',
      ''ModuleDataStored'', ''ModuleImportRunbookComplete'', ''RunningImportModuleRunbook'',
      ''StartingImportModuleRunbook'', ''Updating'']"

definition targetProvisioningStates :: "string list" where
  "targetProvisioningStates = [''Succeeded'']"

text \<open>The \<^verbatim>\<open>Refresh\<close> closure of the create and update operations.\<close>

definition moduleRefresh ::
  "('r, PowerShell72ModuleId, Module, 'p) sdk_client \<Rightarrow> PowerShell72ModuleId \<Rightarrow>
   ('r, PowerShell72ModuleId) world \<Rightarrow>
   (Module sdk_response \<times> string \<times> error option) \<times> ('r, PowerShell72ModuleId) world" where
  "moduleRefresh client id' w =
     (case doGet client w id' of
        ((resp, Some err2), w1) \<Rightarrow>
          ((resp, ''Error'', Some (RetrievingError (sdk_ID client id') err2)), w1)
      | ((resp, None), w1) \<Rightarrow>
          (case Model resp of
             None \<Rightarrow> ((resp, ''Unknown'', None), w1)
           | Some model \<Rightarrow>
               (case mod_Properties model of
                  None \<Rightarrow> ((resp, ''Unknown'', None), w1)
                | Some props \<Rightarrow>
                    (let provisioningState =
                           (case mp_ProvisioningState props of
                              None \<Rightarrow> ''Unknown''
                            | Some ps \<Rightarrow> ps)
                     in case mp_Error props of
                          None \<Rightarrow> ((resp, provisioningState, None), w1)
                        | Some e \<Rightarrow>
                            (case mei_Message e of
                               None \<Rightarrow> ((resp, provisioningState, None), w1)
                             | Some msg \<Rightarrow>
                                 if msg \<noteq> [] then
                                   ((resp, provisioningState, Some (ModuleErrorMessage msg)), w1)
                                 else ((resp, provisioningState, None), w1))))))"

text \<open>
  The error message and the provisioning state a response reports, as the refresh reads them.
  This is the vocabulary of the statements about polling, not code.
\<close>

definition reportedErrorMessage :: "Module sdk_response \<Rightarrow> string" where
  "reportedErrorMessage resp =
     (case Model resp of
        None \<Rightarrow> []
      | Some m \<Rightarrow>
          (case mod_Properties m of
             None \<Rightarrow> []
           | Some props \<Rightarrow>
               (case mp_Error props of
                  None \<Rightarrow> []
                | Some e \<Rightarrow> (case mei_Message e of None \<Rightarrow> [] | Some msg \<Rightarrow> msg))))"

definition reportedProvisioningState :: "Module sdk_response \<Rightarrow> string" where
  "reportedProvisioningState resp =
     (case Model resp of
        None \<Rightarrow> ''Unknown''
      | Some m \<Rightarrow>
          (case mod_Properties m of
             None \<Rightarrow> ''Unknown''
           | Some props \<Rightarrow>
               (case mp_ProvisioningState props of None \<Rightarrow> ''Unknown'' | Some ps \<Rightarrow> ps)))"

definition stateConf ::
  "('r, PowerShell72ModuleId, Module, 'p) sdk_client \<Rightarrow> PowerShell72ModuleId \<Rightarrow> nat \<Rightarrow>
   (('r, PowerShell72ModuleId) world, Module sdk_response) StateChangeConf" where
  "stateConf client id' timeout =
     \<lparr>Pending = pendingProvisioningStates, Target = targetProvisioningStates,
      Refresh = moduleRefresh client id', Timeout = timeout\<rparr>"

definition resourceAutomationPowerShell72ModuleRead ::
  "('r, PowerShell72ModuleId, Module, 'p) sdk_client \<Rightarrow> ('r, PowerShell72ModuleId) world \<Rightarrow>
   ResourceData \<Rightarrow> error option \<times> ('r, PowerShell72ModuleId) world \<times> ResourceData" where
  "resourceAutomationPowerShell72ModuleRead client w d =
     (case sdk_ParseID client (Id d) of
        Inl err \<Rightarrow> (Some err, w, d)
      | Inr id' \<Rightarrow>
          (case doGet client w id' of
             ((resp, Some err), w1) \<Rightarrow>
               if WasNotFound (HttpResponse resp) then (None, w1, d\<lparr>Id := []\<rparr>)
               else (Some (MakingReadRequest (sdk_ID client id') err), w1, d)
           | ((resp, None), w1) \<Rightarrow>
               (None, w1,
                SetString
                  (SetString (SetString d ''name'' (psm_PowerShell72ModuleName id'))
                     ''resource_group_name'' (psm_ResourceGroupName id'))
                  ''automation_account_name'' (psm_AutomationAccountName id'))))"

text \<open>
  \<open>expandPowerShell72ModuleLink d\<close> stands for the request parameters built from the
  \<^verbatim>\<open>module_link\<close> block; \<open>timeoutCreate\<close> is \<^verbatim>\<open>d.Timeout(pluginsdk.TimeoutCreate)\<close>.
\<close>

definition isGlobalModule :: "Module sdk_response \<Rightarrow> bool" where
  "isGlobalModule existing =
     (case Model existing of
        None \<Rightarrow> False
      | Some m \<Rightarrow>
          (case mod_Properties m of
             None \<Rightarrow> False
           | Some props \<Rightarrow> (case mp_IsGlobal props of None \<Rightarrow> False | Some g \<Rightarrow> g)))"

definition resourceAutomationPowerShell72ModuleCreate ::
  "('r, PowerShell72ModuleId, Module, 'p) sdk_client \<Rightarrow> (ResourceData \<Rightarrow> 'p) \<Rightarrow> string \<Rightarrow> nat \<Rightarrow>
   ('r, PowerShell72ModuleId) world \<Rightarrow> ResourceData \<Rightarrow>
   error option \<times> ('r, PowerShell72ModuleId) world \<times> ResourceData" where
  "resourceAutomationPowerShell72ModuleCreate client expandPowerShell72ModuleLink subscriptionId
     timeoutCreate w d =
     (let id' = NewPowerShell72ModuleID subscriptionId (GetString d ''resource_group_name'')
                  (GetString d ''automation_account_name'') (GetString d ''name'')
      in case doGet client w id' of
           ((existing, err), w1) \<Rightarrow>
             if err \<noteq> None \<and> \<not> WasNotFound (HttpResponse existing) then
               (Some (CheckingPresence (sdk_ID client id') (the err)), w1, d)
             else
               (let isGlobal = isGlobalModule existing
                in if \<not> WasNotFound (HttpResponse existing) \<and> \<not> isGlobal then
                     (Some (ImportAsExists ''azurerm_automation_powershell72_module''
                              (sdk_ID client id')), w1, d)
                   else
                     (case doCreateOrUpdate client w1 id' (expandPowerShell72ModuleLink d) of
                        (Some e, w2) \<Rightarrow> (Some e, w2, d)
                      | (None, w2) \<Rightarrow>
                          (case WaitForStateContext (stateConf client id' timeoutCreate) w2 of
                             (Inl e, w3) \<Rightarrow>
                               (Some (WaitingForProvisioning (sdk_ID client id') e), w3, d)
                           | (Inr res, w3) \<Rightarrow>
                               resourceAutomationPowerShell72ModuleRead client w3
                                 (d\<lparr>Id := sdk_ID client id'\<rparr>)))))"

section \<open>Kusto scripts client: checking a name\<close>

text \<open>
  Modelled from the spec: the package \<^verbatim>\<open>validation\<close> of go-autorest is not among the sources.
  As the specification describes it, a \<^verbatim>\<open>Null\<close> constraint with rule \<^verbatim>\<open>true\<close> fails when the field it
  names is \<^verbatim>\<open>nil\<close>, and \<^verbatim>\<open>Validate\<close> returns the first failure of its constraints. The field
  a target names is looked up by \<open>fieldOf\<close>; a target that names no field fails too.
\<close>

record ScriptCheckNameRequest =
  scn_Name :: "string option"
  scn_Type :: "string option"

datatype ConstraintName = Null

record Constraint =
  con_Target :: string
  con_Name :: ConstraintName
  con_Rule :: bool

definition fieldOf :: "ScriptCheckNameRequest \<Rightarrow> string \<Rightarrow> string option option" where
  "fieldOf scriptName target =
     (if target = ''scriptName.Name'' then Some (scn_Name scriptName)
      else if target = ''scriptName.Type'' then Some (scn_Type scriptName)
      else None)"

fun Validate :: "ScriptCheckNameRequest \<Rightarrow> Constraint list \<Rightarrow> error option" where
  "Validate v [] = None"
| "Validate v (c # cs) =
     (case fieldOf v (con_Target c) of
        None \<Rightarrow> Some (ValidationFailure (con_Target c) ''no such field'')
      | Some None \<Rightarrow>
          if con_Rule c then
            Some (ValidationFailure (con_Target c) ''value can not be null; required parameter'')
          else Validate v cs
      | Some (Some x) \<Rightarrow> Validate v cs)"

text \<open>
  The result of the call; \<open>cnr_Response\<close> is the \<^verbatim>\<open>autorest.Response\<close> it embeds. The
  preparer, the sender and the responder build, send and decode the HTTP request through
  go-autorest; here they are parameters, and each use of one is recorded as an event, beside the
  start and the end of the tracing span.
\<close>

record CheckNameResult =
  cnr_Response :: http_response
  cnr_NameAvailable :: "bool option"
  cnr_Name :: "string option"
  cnr_Message :: "string option"
  cnr_Reason :: "string option"

definition zeroCheckNameResult :: CheckNameResult where
  "zeroCheckNameResult =
     \<lparr>cnr_Response = None, cnr_NameAvailable = None, cnr_Name = None, cnr_Message = None,
      cnr_Reason = None\<rparr>"

datatype http_event = StartSpan | EndSpan int | PrepareRequest | SendRequest | RespondToRequest

record 'req transport =
  CheckNameAvailabilityPreparer ::
    "string \<Rightarrow> string \<Rightarrow> string \<Rightarrow> ScriptCheckNameRequest \<Rightarrow> error + 'req"
  CheckNameAvailabilitySender :: "'req \<Rightarrow> http_response \<times> error option"
  CheckNameAvailabilityResponder :: "http_response \<Rightarrow> CheckNameResult \<times> error option"

definition CheckNameAvailability_body ::
  "'req transport \<Rightarrow> string \<Rightarrow> string \<Rightarrow> string \<Rightarrow> ScriptCheckNameRequest \<Rightarrow>
   CheckNameResult \<times> error option \<times> http_event list" where
  "CheckNameAvailability_body client resourceGroupName clusterName databaseName scriptName =
     (case Validate scriptName
             [\<lparr>con_Target = ''scriptName.Name'', con_Name = Null, con_Rule = True\<rparr>,
              \<lparr>con_Target = ''scriptName.Type'', con_Name = Null, con_Rule = True\<rparr>] of
        Some err \<Rightarrow>
          (zeroCheckNameResult,
           Some (ValidationError ''kusto.ScriptsClient'' ''CheckNameAvailability'' err), [])
      | None \<Rightarrow>
          (case CheckNameAvailabilityPreparer client resourceGroupName clusterName databaseName
                  scriptName of
             Inl err \<Rightarrow> (zeroCheckNameResult, Some (FailurePreparingRequest err), [PrepareRequest])
           | Inr req \<Rightarrow>
               (case CheckNameAvailabilitySender client req of
                  (resp, Some err) \<Rightarrow>
                    (zeroCheckNameResult\<lparr>cnr_Response := resp\<rparr>,
                     Some (FailureSendingRequest err), [PrepareRequest, SendRequest])
                | (resp, None) \<Rightarrow>
                    (case CheckNameAvailabilityResponder client resp of
                       (result, Some err) \<Rightarrow>
                         (result, Some (FailureRespondingToRequest err),
                          [PrepareRequest, SendRequest, RespondToRequest])
                     | (result, None) \<Rightarrow>
                         (result, None, [PrepareRequest, SendRequest, RespondToRequest])))))"

definition CheckNameAvailability ::
  "bool \<Rightarrow> 'req transport \<Rightarrow> string \<Rightarrow> string \<Rightarrow> string \<Rightarrow> ScriptCheckNameRequest \<Rightarrow>
   CheckNameResult \<times> error option \<times> http_event list" where
  "CheckNameAvailability tracingIsEnabled client resourceGroupName clusterName databaseName
     scriptName =
     (case CheckNameAvailability_body client resourceGroupName clusterName databaseName
             scriptName of
        (result, err, events) \<Rightarrow>
          if tracingIsEnabled then
            (let sc = (case cnr_Response result of None \<Rightarrow> - 1 | Some code \<Rightarrow> int code)
             in (result, err, StartSpan # events @ [EndSpan sc]))
          else (result, err, events))"

section \<open>Chaos Studio SDK: listing targets page by page\<close>









section \<open>Example remote sides\<close>

text \<open>
  A remote side without state that answers every read with the same result and accepts every
  write, for running the operations on concrete inputs.
\<close>

definition fixedClient ::
  "'m sdk_response \<times> error option \<Rightarrow> ('i \<Rightarrow> string) \<Rightarrow> (string \<Rightarrow> error + 'i) \<Rightarrow>
   (unit, 'i, 'm, 'p) sdk_client" where
  "fixedClient getResult formatID parseID =
     \<lparr>sdk_Get = (\<lambda>r i. (getResult, r)), sdk_CreateOrUpdate = (\<lambda>r i p. (None, r)),
      sdk_ID = formatID, sdk_ParseID = parseID\<rparr>"

definition emptyWorld :: "(unit, 'i) world" where
  "emptyWorld = \<lparr>remote = (), calls = []\<rparr>"

definition configured :: "(string \<times> string) list \<Rightarrow> ResourceData" where
  "configured kvs = \<lparr>Id = [], attrs = map_of kvs\<rparr>"

text \<open>
  Clients of the three resource types over such a remote side. Their IDs are formatted as the
  last component alone, and every string parses as the ID of that name in one fixed place.
\<close>

definition moduleClient ::
  "Module sdk_response \<times> error option \<Rightarrow> (unit, PowerShell72ModuleId, Module, unit) sdk_client" where
  "moduleClient getResult =
     fixedClient getResult psm_PowerShell72ModuleName
       (\<lambda>s. Inr (NewPowerShell72ModuleID ''sub1'' ''rg1'' ''account1'' s))"

definition viewsClient ::
  "unit sdk_response \<times> error option \<Rightarrow> (unit, ScopedViewId, unit, unit) sdk_client" where
  "viewsClient getResult =
     fixedClient getResult ViewName (\<lambda>s. Inr (NewScopedViewID ''/subscriptions/sub1'' s))"

definition targetsClient ::
  "Target sdk_response \<times> error option \<Rightarrow> (unit, TargetId, Target, Target) sdk_client" where
  "targetsClient getResult =
     fixedClient getResult tid_TargetName
       (\<lambda>s. Inr (NewTargetID ''sub1'' ''rg1'' ''Microsoft.Compute'' ''virtualMachines'' ''vm1'' s))"

text \<open>
  A remote side that answers the reads of a module from a script, one answer per read, and
  fails every read after the script has run out.
\<close>

definition scriptedModuleClient ::
  "((Module sdk_response \<times> error option) list, PowerShell72ModuleId, Module, unit) sdk_client" where
  "scriptedModuleClient =
     \<lparr>sdk_Get = (\<lambda>r i. case r of
                           [] \<Rightarrow> ((\<lparr>HttpResponse = None, Model = None\<rparr>,
                                   Some (ApiError ''no answer'')), [])
                         | a # as \<Rightarrow> (a, as)),
      sdk_CreateOrUpdate = (\<lambda>r i p. (None, r)),
      sdk_ID = psm_PowerShell72ModuleName,
      sdk_ParseID = (\<lambda>s. Inr (NewPowerShell72ModuleID ''sub1'' ''rg1'' ''account1'' s))\<rparr>"

text \<open>Answers of the remote side, and configurations of the three resources.\<close>

definition moduleFailed :: "string \<Rightarrow> string \<Rightarrow> Module sdk_response \<times> error option" where
  "moduleFailed provisioningState message =
     (\<lparr>HttpResponse = Some 200,
       Model = Some \<lparr>mod_Properties = Some \<lparr>mp_IsGlobal = None,
                  mp_ProvisioningState = Some provisioningState,
                  mp_Error = Some \<lparr>mei_Message = Some message\<rparr>\<rparr>\<rparr>\<rparr>, None)"

definition moduleFound :: "bool option \<Rightarrow> string \<Rightarrow> Module sdk_response \<times> error option" where
  "moduleFound isGlobal provisioningState =
     (\<lparr>HttpResponse = Some 200,
       Model = Some \<lparr>mod_Properties = Some \<lparr>mp_IsGlobal = isGlobal,
                  mp_ProvisioningState = Some provisioningState, mp_Error = None\<rparr>\<rparr>\<rparr>, None)"

definition requestFailed :: "nat \<Rightarrow> 'm sdk_response \<times> error option" where
  "requestFailed status =
     (\<lparr>HttpResponse = Some status, Model = None\<rparr>, Some (ApiError ''request failed''))"

definition moduleConfig :: ResourceData where
  "moduleConfig =
     configured [(''name'', ''Az.Accounts''), (''resource_group_name'', ''rg1''),
                 (''automation_account_name'', ''account1'')]"

definition viewConfig :: ResourceData where
  "viewConfig = configured [(''name'', ''view1''), (''subscription_id'', ''/subscriptions/sub1'')]"

definition targetModel :: TargetResourceModel where
  "targetModel =
     \<lparr>trm_Name = ''Microsoft-VirtualMachine'', trm_ResourceGroup = ''rg1'',
      trm_ParentResourceType = ''virtualMachines'', trm_ParentName = ''vm1'',
      trm_ParentProviderNamespace = ''Microsoft.Compute'', trm_Location = ''westeurope''\<rparr>"

definition targetState :: ResourceData where
  "targetState = \<lparr>Id = ''Microsoft-VirtualMachine'', attrs = Map.empty\<rparr>"

text \<open>A transport that prepares every request, sends it with status 200 and decodes an available name.\<close>

definition okTransport :: "string transport" where
  "okTransport =
     \<lparr>CheckNameAvailabilityPreparer =
        (\<lambda>resourceGroupName clusterName databaseName scriptName.
           Inr (''/resourceGroups/'' @ resourceGroupName @ ''/clusters/'' @ clusterName @
                ''/databases/'' @ databaseName @ ''/scriptsCheckNameAvailability'')),
      CheckNameAvailabilitySender = (\<lambda>req. (Some 200, None)),
      CheckNameAvailabilityResponder =
        (\<lambda>resp. (zeroCheckNameResult\<lparr>cnr_Response := resp, cnr_NameAvailable := Some True\<rparr>,
                  None))\<rparr>"





section \<open>Properties of the library functions\<close>

lemma Split_nonempty: "Split s sep \<noteq> []"
  by (induction s) (auto split: list.splits)

lemma length_Split: "length (Split s sep) = Suc (count_list s sep)"
  by (induction s) (auto split: list.splits)

lemma Split_no_sep: "sep \<notin> set s \<Longrightarrow> Split s sep = [s]"
  by (induction s) auto

lemma Split_append_sep:
  "sep \<notin> set a \<Longrightarrow> Split (a @ sep # b) sep = a # Split b sep"
  by (induction a) (auto split: list.splits)

lemma Split_parts_no_sep: "p \<in> set (Split s sep) \<Longrightarrow> sep \<notin> set p"
  by (induction s arbitrary: p) (auto split: list.splits if_splits)

lemma Sprintf_literal:
  "CHR ''%'' \<notin> set lit \<Longrightarrow> Sprintf (lit @ ''%s'' @ fs) (a # as) = lit @ a @ Sprintf fs as"
proof (induction lit)
  case Nil
  then show ?case by simp
next
  case (Cons c lit)
  then show ?case by (cases lit) auto
qed

lemma Sprintf_no_verb: "CHR ''%'' \<notin> set lit \<Longrightarrow> Sprintf lit [] = lit"
  by (induction lit "[] :: string list" rule: Sprintf.induct) (auto simp: extra_operands_def)

lemma Split_two_iff:
  "Split s sep = [a, b] \<longleftrightarrow> s = a @ sep # b \<and> sep \<notin> set a \<and> sep \<notin> set b"
proof (induction s arbitrary: a)
  case Nil
  then show ?case by simp
next
  case (Cons c s)
  show ?case
  proof (cases "c = sep")
    case True
    have "Split s sep = [b] \<longleftrightarrow> s = b \<and> sep \<notin> set b"
    proof
      assume h: "Split s sep = [b]"
      then have "count_list s sep = 0"
        using length_Split [of s sep] by simp
      then have "sep \<notin> set s"
        by (simp add: count_list_0_iff)
      with h show "s = b \<and> sep \<notin> set b"
        by (simp add: Split_no_sep)
    next
      assume "s = b \<and> sep \<notin> set b"
      then show "Split s sep = [b]"
        by (simp add: Split_no_sep)
    qed
    with True show ?thesis
      by (cases a) auto
  next
    case False
    show ?thesis
    proof (cases a)
      case Nil
      with False show ?thesis
        by (auto split: list.splits)
    next
      case (Cons a0 as)
      with False Cons.IH [of as] show ?thesis
        by (auto split: list.splits simp: Split_nonempty)
    qed
  qed
qed

section \<open>The SKU name of a managed instance\<close>

lemma expand_error_iff:
  "isl (expandManagedInstanceSkuName skuName) \<longleftrightarrow>
     length (Split skuName CHR ''_'') \<noteq> 2 \<or>
     (Split skuName CHR ''_'') ! 0 \<notin> {''GP'', ''BC''}"
  by (simp add: expandManagedInstanceSkuName_def Let_def)

text \<open>
  C8: \<open>expandManagedInstanceSkuName\<close> fails exactly when the name does not split on the
  underscore into two parts or the first part is neither GP nor BC; otherwise the name is
  \<open>p0_p1\<close> with no further underscore, and the result carries the whole name, the tier
  that belongs to \<open>p0\<close> and the family \<open>p1\<close> (size and capacity stay unset).
\<close>

theorem expandManagedInstanceSkuName_spec:
  "(isl (expandManagedInstanceSkuName skuName) \<longleftrightarrow>
      length (Split skuName CHR ''_'') \<noteq> 2 \<or>
      hd (Split skuName CHR ''_'') \<notin> {''GP'', ''BC''}) \<and>
   (\<not> isl (expandManagedInstanceSkuName skuName) \<longrightarrow>
      (\<exists>p0 p1. Split skuName CHR ''_'' = [p0, p1] \<and>
         skuName = p0 @ ''_'' @ p1 \<and>
         expandManagedInstanceSkuName skuName =
           Inr \<lparr>sku_Name = Some skuName,
                sku_Tier = Some (if p0 = ''GP'' then ''GeneralPurpose'' else ''BusinessCritical''),
                sku_Size = None, sku_Family = Some p1, sku_Capacity = None\<rparr>))"
proof (intro conjI impI)
  have "Split skuName CHR ''_'' \<noteq> []"
    by (rule Split_nonempty)
  then have "hd (Split skuName CHR ''_'') = (Split skuName CHR ''_'') ! 0"
    by (simp add: hd_conv_nth)
  then show "isl (expandManagedInstanceSkuName skuName) \<longleftrightarrow>
      length (Split skuName CHR ''_'') \<noteq> 2 \<or>
      hd (Split skuName CHR ''_'') \<notin> {''GP'', ''BC''}"
    by (simp add: expand_error_iff)
next
  assume ok: "\<not> isl (expandManagedInstanceSkuName skuName)"
  then have len: "length (Split skuName CHR ''_'') = 2"
    and tier: "(Split skuName CHR ''_'') ! 0 \<in> {''GP'', ''BC''}"
    by (simp_all add: expand_error_iff)
  from len obtain p0 p1 where parts: "Split skuName CHR ''_'' = [p0, p1]"
    by (cases "Split skuName CHR ''_''"; cases "tl (Split skuName CHR ''_'')") auto
  then have whole: "skuName = p0 @ ''_'' @ p1"
    by (simp add: Split_two_iff)
  from parts tier have "p0 = ''GP'' \<or> p0 = ''BC''"
    by simp
  with parts have "expandManagedInstanceSkuName skuName =
      Inr \<lparr>sku_Name = Some skuName,
           sku_Tier = Some (if p0 = ''GP'' then ''GeneralPurpose'' else ''BusinessCritical''),
           sku_Size = None, sku_Family = Some p1, sku_Capacity = None\<rparr>"
    by (auto simp: expandManagedInstanceSkuName_def Let_def)
  with parts whole show "\<exists>p0 p1. Split skuName CHR ''_'' = [p0, p1] \<and>
         skuName = p0 @ ''_'' @ p1 \<and>
         expandManagedInstanceSkuName skuName =
           Inr \<lparr>sku_Name = Some skuName,
                sku_Tier = Some (if p0 = ''GP'' then ''GeneralPurpose'' else ''BusinessCritical''),
                sku_Size = None, sku_Family = Some p1, sku_Capacity = None\<rparr>"
    by blast
qed

lemma expand_GP_Gen5:
  "expandManagedInstanceSkuName ''GP_Gen5'' =
     Inr \<lparr>sku_Name = Some ''GP_Gen5'', sku_Tier = Some ''GeneralPurpose'', sku_Size = None,
          sku_Family = Some ''Gen5'', sku_Capacity = None\<rparr>"
  by (simp add: expandManagedInstanceSkuName_def)

lemma expand_wrong_parts:
  "expandManagedInstanceSkuName ''GP_Gen5_x'' = Inl (WrongNumberOfParts ''GP_Gen5_x'' 3)"
  "expandManagedInstanceSkuName ''XX_Gen5'' = Inl (UnknownSkuTier ''XX_Gen5'' ''XX'')"
  by (simp_all add: expandManagedInstanceSkuName_def)

theorem expandManagedInstanceSkuName_spec_witness:
  "\<not> isl (expandManagedInstanceSkuName ''BC_Gen5'') \<and>
   (\<exists>p0 p1. Split ''BC_Gen5'' CHR ''_'' = [p0, p1] \<and>
      expandManagedInstanceSkuName ''BC_Gen5'' =
        Inr \<lparr>sku_Name = Some ''BC_Gen5'',
             sku_Tier = Some (if p0 = ''GP'' then ''GeneralPurpose'' else ''BusinessCritical''),
             sku_Size = None, sku_Family = Some p1, sku_Capacity = None\<rparr>)"
proof -
  have ok: "\<not> isl (expandManagedInstanceSkuName ''BC_Gen5'')"
    by (simp add: expandManagedInstanceSkuName_def)
  with expandManagedInstanceSkuName_spec [of "''BC_Gen5''"] show ?thesis
    by blast
qed

section \<open>The ID formatters\<close>

text \<open>
  C5: each formatter returns the canonical resource ID path built from its four components.
\<close>

theorem ID_formatters_canonical:
  "SqlRoleAssigmentId_ID (NewSqlRoleAssigmentID sub rg account name) =
     ''/subscriptions/'' @ sub @ ''/resourceGroups/'' @ rg @
     ''/providers/Microsoft.DocumentDB/databaseAccounts/'' @ account @
     ''/sqlRoleAssignments/'' @ name \<and>
   ManagedInstanceAzureActiveDirectoryAdministratorId_ID
       (NewManagedInstanceAzureActiveDirectoryAdministratorID sub rg inst name) =
     ''/subscriptions/'' @ sub @ ''/resourceGroups/'' @ rg @
     ''/providers/Microsoft.Sql/managedInstances/'' @ inst @
     ''/administrators/'' @ name"
  by (simp add: SqlRoleAssigmentId_ID_def NewSqlRoleAssigmentID_def
      ManagedInstanceAzureActiveDirectoryAdministratorId_ID_def
      NewManagedInstanceAzureActiveDirectoryAdministratorID_def extra_operands_def)

lemma ManagedInstanceAzureActiveDirectoryAdministratorIDFormatter_test:
  "ManagedInstanceAzureActiveDirectoryAdministratorId_ID
     (NewManagedInstanceAzureActiveDirectoryAdministratorID
        ''12345678-1234-9876-4563-123456789012'' ''resGroup1'' ''instance1'' ''activeDirectory'') =
   ''/subscriptions/12345678-1234-9876-4563-123456789012/resourceGroups/resGroup1/providers/Microsoft.Sql/managedInstances/instance1/administrators/activeDirectory''"
  by (simp add: ManagedInstanceAzureActiveDirectoryAdministratorId_ID_def
      NewManagedInstanceAzureActiveDirectoryAdministratorID_def extra_operands_def)

section \<open>Parsing the SQL role assignment ID\<close>

lemma TrimPrefix_slash: "TrimPrefix (CHR ''/'' # s) ''/'' = s"
  by (simp add: TrimPrefix_def)

lemma TrimSuffix_keep: "s \<noteq> [] \<Longrightarrow> last s \<noteq> c \<Longrightarrow> TrimSuffix s [c] = s"
proof -
  assume ne: "s \<noteq> []" and l: "last s \<noteq> c"
  from ne have "drop (length s - 1) s = [last s]"
    by (cases s rule: rev_cases) auto
  with l show ?thesis
    by (simp add: TrimSuffix_def)
qed








lemma Split_ID_path:
  assumes "CHR ''/'' \<notin> set sub" "CHR ''/'' \<notin> set rg" "CHR ''/'' \<notin> set acc" "CHR ''/'' \<notin> set name"
  shows "Split (''subscriptions'' @ CHR ''/'' # sub @ CHR ''/'' # ''resourceGroups'' @ CHR ''/'' # rg @
           CHR ''/'' # ''providers'' @ CHR ''/'' # ''Microsoft.DocumentDB'' @ CHR ''/'' #
           ''databaseAccounts'' @ CHR ''/'' # acc @ CHR ''/'' # ''sqlRoleAssignments'' @
           CHR ''/'' # name) CHR ''/'' =
         [''subscriptions'', sub, ''resourceGroups'', rg, ''providers'', ''Microsoft.DocumentDB'',
          ''databaseAccounts'', acc, ''sqlRoleAssignments'', name]"
proof -
  have lit: "CHR ''/'' \<notin> set ''subscriptions''" "CHR ''/'' \<notin> set ''resourceGroups''"
    "CHR ''/'' \<notin> set ''providers''" "CHR ''/'' \<notin> set ''Microsoft.DocumentDB''"
    "CHR ''/'' \<notin> set ''databaseAccounts''" "CHR ''/'' \<notin> set ''sqlRoleAssignments''"
    by simp_all
  show ?thesis
    by (simp only: Split_append_sep [OF lit(1)] Split_append_sep [OF lit(2)]
        Split_append_sep [OF lit(3)] Split_append_sep [OF lit(4)] Split_append_sep [OF lit(5)]
        Split_append_sep [OF lit(6)] Split_append_sep [OF assms(1)] Split_append_sep [OF assms(2)]
        Split_append_sep [OF assms(3)] Split_no_sep [OF assms(4)])
qed

text \<open>
  C3: an ID whose four components are non-empty and contain no slash is parsed back from its
  formatted string: \<open>SqlRoleAssigmentID (ID i)\<close> succeeds and returns \<open>i\<close>.
\<close>

theorem SqlRoleAssigmentID_roundtrip:
  assumes "SubscriptionId i \<noteq> []" "CHR ''/'' \<notin> set (SubscriptionId i)"
    and "ResourceGroup i \<noteq> []" "CHR ''/'' \<notin> set (ResourceGroup i)"
    and "DatabaseAccountName i \<noteq> []" "CHR ''/'' \<notin> set (DatabaseAccountName i)"
    and "SqlRoleAssignmentName i \<noteq> []" "CHR ''/'' \<notin> set (SqlRoleAssignmentName i)"
  shows "SqlRoleAssigmentID (SqlRoleAssigmentId_ID i) = Inr i"
proof -
  define sub rg acc name where "sub = SubscriptionId i" and "rg = ResourceGroup i"
    and "acc = DatabaseAccountName i" and "name = SqlRoleAssignmentName i"
  define path where "path = ''subscriptions'' @ CHR ''/'' # sub @ CHR ''/'' # ''resourceGroups'' @ CHR ''/'' # rg @
           CHR ''/'' # ''providers'' @ CHR ''/'' # ''Microsoft.DocumentDB'' @ CHR ''/'' #
           ''databaseAccounts'' @ CHR ''/'' # acc @ CHR ''/'' # ''sqlRoleAssignments'' @
           CHR ''/'' # name"
  have ne: "sub \<noteq> []" "rg \<noteq> []" "acc \<noteq> []" "name \<noteq> []"
    and ns: "CHR ''/'' \<notin> set sub" "CHR ''/'' \<notin> set rg" "CHR ''/'' \<notin> set acc" "CHR ''/'' \<notin> set name"
    using assms by (simp_all add: sub_def rg_def acc_def name_def)
  have fmt: "SqlRoleAssigmentId_ID i = CHR ''/'' # path"
    by (simp add: SqlRoleAssigmentId_ID_def extra_operands_def path_def sub_def rg_def acc_def
        name_def)
  have "last path = last name"
    using ne(4) by (simp add: path_def)
  with ne(4) ns(4) have "last path \<noteq> CHR ''/''"
    using last_in_set by metis
  moreover have "path \<noteq> []"
    by (simp add: path_def)
  ultimately have trim: "TrimSuffix (TrimPrefix (SqlRoleAssigmentId_ID i) ''/'') ''/'' = path"
    by (simp add: fmt TrimPrefix_slash TrimSuffix_keep)
  have comps: "Split path CHR ''/'' =
      [''subscriptions'', sub, ''resourceGroups'', rg, ''providers'', ''Microsoft.DocumentDB'',
       ''databaseAccounts'', acc, ''sqlRoleAssignments'', name]"
    unfolding path_def by (rule Split_ID_path [OF ns])
  have parsed: "ParseAzureResourceID (SqlRoleAssigmentId_ID i) =
      Inr \<lparr>rid_SubscriptionID = sub, rid_ResourceGroup = rg,
           rid_Provider = ''Microsoft.DocumentDB'',
           rid_Path = [(''databaseAccounts'', acc), (''sqlRoleAssignments'', name)]\<rparr>"
    using ne by (simp add: ParseAzureResourceID_def trim comps resourceGroupOf_def)
  show ?thesis
    using ne by (simp add: SqlRoleAssigmentID_def parsed PopSegment_def
        ValidateNoEmptySegments_def sub_def rg_def acc_def name_def)
qed
























theorem SqlRoleAssigmentID_roundtrip_witness:
  "SubscriptionId (NewSqlRoleAssigmentID ''12345678-1234-9876-4563-123456789012'' ''resGroup1'' ''account1'' ''assignment1'') \<noteq> [] \<and>
   CHR ''/'' \<notin> set (SqlRoleAssignmentName (NewSqlRoleAssigmentID ''12345678-1234-9876-4563-123456789012'' ''resGroup1'' ''account1'' ''assignment1'')) \<and>
   SqlRoleAssigmentID (SqlRoleAssigmentId_ID
      (NewSqlRoleAssigmentID ''12345678-1234-9876-4563-123456789012'' ''resGroup1'' ''account1'' ''assignment1'')) =
   Inr (NewSqlRoleAssigmentID ''12345678-1234-9876-4563-123456789012'' ''resGroup1'' ''account1'' ''assignment1'')"
  using SqlRoleAssigmentID_roundtrip
    [of "NewSqlRoleAssigmentID ''12345678-1234-9876-4563-123456789012'' ''resGroup1'' ''account1'' ''assignment1''"]
  by (simp add: NewSqlRoleAssigmentID_def)




section \<open>The operations of the declared resources\<close>

lemmas resource_defs = resourceCosmosDbRoleAssignment_def TargetResource_def
  resourceKubernetesArcExtension_def resourceAutomationPowerShell72Module_def
  resourceArmSqlMiServer_def resourceArmApplicationInsightsWorkBook_def
  resourceKubernetesMaintenanceConfiguration_def resourceFunctionAppHostKeys_def
  resourceFirewallPolicy_def AnomalyAlertResource_def

text \<open>
  The Kubernetes Arc extension resource is declared without an update operation: the statement that
  every declared resource implements all five operations fails there.
\<close>

theorem not_every_resource_has_update:
  "(''resourceKubernetesArcExtension'', resourceKubernetesArcExtension) \<in> set declared_resources \<and>
   Update resourceKubernetesArcExtension = None"
  by (simp add: declared_resources_def resourceKubernetesArcExtension_def)

text \<open>
  C1 (as amended): every declared resource supplies a schema and implements Create, Read and
  Delete. Update is absent exactly from the Cosmos DB role assignment, the chaos target and the
  Kubernetes Arc extension, and the importer exactly from the function app host keys.
\<close>

theorem declared_resources_operations:
  "\<forall>(n, r) \<in> set declared_resources.
     Schema r \<noteq> [] \<and> Create r \<noteq> None \<and> Read r \<noteq> None \<and> Delete r \<noteq> None \<and>
     (Update r = None \<longleftrightarrow>
        n \<in> {''resourceCosmosDbRoleAssignment'', ''TargetResource'',
             ''resourceKubernetesArcExtension''}) \<and>
     (Importer r = None \<longleftrightarrow> n = ''resourceFunctionAppHostKeys'')"
  by (simp add: declared_resources_def resource_defs)

theorem declared_resources_operations_witness:
  "(''resourceAutomationPowerShell72Module'', resourceAutomationPowerShell72Module)
     \<in> set declared_resources \<and>
   Schema resourceAutomationPowerShell72Module \<noteq> [] \<and>
   Create resourceAutomationPowerShell72Module \<noteq> None \<and>
   Read resourceAutomationPowerShell72Module \<noteq> None \<and>
   Delete resourceAutomationPowerShell72Module \<noteq> None \<and>
   Update resourceAutomationPowerShell72Module \<noteq> None \<and>
   Importer resourceAutomationPowerShell72Module \<noteq> None"
proof -
  have m: "(''resourceAutomationPowerShell72Module'', resourceAutomationPowerShell72Module)
     \<in> set declared_resources"
    by (simp add: declared_resources_def)
  from declared_resources_operations [THEN bspec, OF m] m show ?thesis
    by simp
qed

section \<open>Creating a resource that exists\<close>

lemma doGet_calls:
  "doGet client w i = (res, w1) \<Longrightarrow> calls w1 = calls w @ [GetCall i]"
  by (auto simp: doGet_def split: prod.splits)

lemma doCreateOrUpdate_calls:
  "doCreateOrUpdate client w i p = (res, w1) \<Longrightarrow> calls w1 = calls w @ [CreateOrUpdateCall i]"
  by (auto simp: doCreateOrUpdate_def split: prod.splits)

lemma createFunc_exists:
  assumes "doGet client w (NewScopedViewID (GetString d f) (GetString d ''name'')) =
             ((existing, err), w1)"
    and "\<not> WasNotFound (HttpResponse existing)"
  shows "createFunc rn f client vp w d =
           (Some (case err of
                    None \<Rightarrow> ImportAsExists rn
                              (sdk_ID client (NewScopedViewID (GetString d f) (GetString d ''name'')))
                  | Some e \<Rightarrow> CheckingPresence
                              (sdk_ID client (NewScopedViewID (GetString d f) (GetString d ''name''))) e),
            w1, d)"
  using assms by (simp add: createFunc_def Let_def split: option.splits)

lemma createFunc_first_call:
  "\<exists>rest. calls (fst (snd (createFunc rn f client vp w d))) =
     calls w @ GetCall (NewScopedViewID (GetString d f) (GetString d ''name'')) # rest"
proof -
  obtain existing err w1 where
    g: "doGet client w (NewScopedViewID (GetString d f) (GetString d ''name'')) =
          ((existing, err), w1)"
    by (metis surj_pair)
  note c1 = doGet_calls [OF g]
  show ?thesis
  proof (cases "createOrUpdateCostManagementView client vp w1 d
      (NewScopedViewID (GetString d f) (GetString d ''name'')) None")
    case (Pair r w2)
    then have "calls w2 = calls w1 @
        [CreateOrUpdateCall (NewScopedViewID (GetString d f) (GetString d ''name''))]"
      by (simp add: createOrUpdateCostManagementView_def doCreateOrUpdate_calls)
    with g c1 Pair show ?thesis
      by (simp add: createFunc_def Let_def split: option.splits)
  qed
qed

lemma TargetResource_Create_exists:
  assumes "decode d = Inr model"
    and "doGet client w (NewTargetID sub (trm_ResourceGroup model)
           (trm_ParentProviderNamespace model) (trm_ParentResourceType model)
           (trm_ParentName model) (trm_Name model)) = ((existing, err), w1)"
    and "\<not> WasNotFound (HttpResponse existing)"
  shows "TargetResource_Create client decode sub w d =
           (Some (case err of
                    None \<Rightarrow> ImportAsExists ''azurerm_chaos_target''
                              (sdk_ID client (NewTargetID sub (trm_ResourceGroup model)
                                 (trm_ParentProviderNamespace model) (trm_ParentResourceType model)
                                 (trm_ParentName model) (trm_Name model)))
                  | Some e \<Rightarrow> CheckingPresence
                              (sdk_ID client (NewTargetID sub (trm_ResourceGroup model)
                                 (trm_ParentProviderNamespace model) (trm_ParentResourceType model)
                                 (trm_ParentName model) (trm_Name model))) e),
            w1, d)"
  using assms by (simp add: TargetResource_Create_def Let_def split: option.splits)

lemma TargetResource_Create_first_call:
  assumes "decode d = Inr model"
  shows "\<exists>rest. calls (fst (snd (TargetResource_Create client decode sub w d))) =
     calls w @ GetCall (NewTargetID sub (trm_ResourceGroup model)
           (trm_ParentProviderNamespace model) (trm_ParentResourceType model)
           (trm_ParentName model) (trm_Name model)) # rest"
proof -
  let ?id = "NewTargetID sub (trm_ResourceGroup model)
           (trm_ParentProviderNamespace model) (trm_ParentResourceType model)
           (trm_ParentName model) (trm_Name model)"
  obtain existing err w1 where g: "doGet client w ?id = ((existing, err), w1)"
    by (metis surj_pair)
  note c1 = doGet_calls [OF g]
  define t where "t = (if tid_TargetName ?id = ''Microsoft-Agent'' then
                              \<lparr>tgt_Location = Some (trm_Location model),
                               tgt_Properties = Some
                                 \<lparr>Identities = Some
                                    [\<lparr>ind_Type = Some ''CertificateSubjectIssuer'',
                                      ind_Subject = Some ''CN=example.subject''\<rparr>],
                                  AgentProfileId = None\<rparr>\<rparr>
                            else
                              \<lparr>tgt_Location = Some (trm_Location model),
                               tgt_Properties = Some \<lparr>Identities = None, AgentProfileId = None\<rparr>\<rparr>)"
  obtain e2 w2 where cu: "doCreateOrUpdate client w1 ?id t = (e2, w2)"
    by (metis surj_pair)
  note c2 = doCreateOrUpdate_calls [OF cu]
  have "TargetResource_Create client decode sub w d =
      (if err \<noteq> None \<and> \<not> WasNotFound (HttpResponse existing) then
         (Some (CheckingPresence (sdk_ID client ?id) (the err)), w1, d)
       else if \<not> WasNotFound (HttpResponse existing) then
         (Some (ImportAsExists ''azurerm_chaos_target'' (sdk_ID client ?id)), w1, d)
       else (case e2 of
               Some e \<Rightarrow> (Some (CreatingError (sdk_ID client ?id) e), w2, d)
             | None \<Rightarrow> (None, w2, d\<lparr>Id := sdk_ID client ?id\<rparr>)))"
    using assms g cu unfolding t_def
    by (simp add: TargetResource_Create_def Let_def split: option.splits)
  with c1 c2 show ?thesis
    by (simp split: option.splits)
qed

lemma waitLoop_calls:
  assumes "\<And>w r w1. Refresh conf w = (r, w1) \<Longrightarrow> \<exists>ys. calls w1 = calls w @ ys"
  shows "\<exists>ys. calls (snd (waitLoop conf n w)) = calls w @ ys"
proof (induction n arbitrary: w)
  case 0
  then show ?case by simp
next
  case (Suc n)
  obtain res st err w1 where r: "Refresh conf w = ((res, st, err), w1)"
    by (metis surj_pair)
  from assms [OF r] obtain ys where ys: "calls w1 = calls w @ ys"
    by blast
  from Suc.IH [of w1] obtain zs where zs: "calls (snd (waitLoop conf n w1)) = calls w1 @ zs"
    by blast
  from r ys zs show ?case
    by (auto split: option.splits)
qed

lemma moduleRefresh_calls:
  "moduleRefresh client i w = (r, w1) \<Longrightarrow> calls w1 = calls w @ [GetCall i]"
  by (auto simp: moduleRefresh_def Let_def dest: doGet_calls
      split: prod.splits option.splits if_splits)

lemma moduleRead_calls:
  "\<exists>ys. calls (fst (snd (resourceAutomationPowerShell72ModuleRead client w d))) = calls w @ ys"
  by (auto simp: resourceAutomationPowerShell72ModuleRead_def dest: doGet_calls
      split: sum.splits prod.splits option.splits)

lemma moduleCreate_exists:
  assumes "doGet client w (NewPowerShell72ModuleID sub (GetString d ''resource_group_name'')
                  (GetString d ''automation_account_name'') (GetString d ''name'')) =
             ((existing, err), w1)"
    and "\<not> WasNotFound (HttpResponse existing)"
    and "err \<noteq> None \<or> \<not> isGlobalModule existing"
  shows "resourceAutomationPowerShell72ModuleCreate client expand sub timeout w d =
           (Some (case err of
                    None \<Rightarrow> ImportAsExists ''azurerm_automation_powershell72_module''
                              (sdk_ID client (NewPowerShell72ModuleID sub
                                 (GetString d ''resource_group_name'')
                                 (GetString d ''automation_account_name'') (GetString d ''name'')))
                  | Some e \<Rightarrow> CheckingPresence
                              (sdk_ID client (NewPowerShell72ModuleID sub
                                 (GetString d ''resource_group_name'')
                                 (GetString d ''automation_account_name'') (GetString d ''name''))) e),
            w1, d)"
  using assms
  by (auto simp: resourceAutomationPowerShell72ModuleCreate_def Let_def split: option.splits)

lemma moduleCreate_first_call:
  "\<exists>rest. calls (fst (snd (resourceAutomationPowerShell72ModuleCreate client expand sub timeout w d))) =
     calls w @ GetCall (NewPowerShell72ModuleID sub (GetString d ''resource_group_name'')
                  (GetString d ''automation_account_name'') (GetString d ''name'')) # rest"
proof -
  let ?id = "NewPowerShell72ModuleID sub (GetString d ''resource_group_name'')
                  (GetString d ''automation_account_name'') (GetString d ''name'')"
  obtain existing err w1 where g: "doGet client w ?id = ((existing, err), w1)"
    by (metis surj_pair)
  note c1 = doGet_calls [OF g]
  obtain e2 w2 where cu: "doCreateOrUpdate client w1 ?id (expand d) = (e2, w2)"
    by (metis surj_pair)
  note c2 = doCreateOrUpdate_calls [OF cu]
  obtain r3 w3 where wt: "WaitForStateContext (stateConf client ?id timeout) w2 = (r3, w3)"
    by (metis surj_pair)
  have "\<exists>ys. calls (snd (waitLoop (stateConf client ?id timeout) timeout w2)) = calls w2 @ ys"
    by (rule waitLoop_calls) (auto simp: stateConf_def dest: moduleRefresh_calls)
  with wt obtain ys where c3: "calls w3 = calls w2 @ ys"
    by (auto simp: WaitForStateContext_def stateConf_def)
  obtain zs where c4: "calls (fst (snd (resourceAutomationPowerShell72ModuleRead client w3
      (d\<lparr>Id := sdk_ID client ?id\<rparr>)))) = calls w3 @ zs"
    using moduleRead_calls by blast
  from g c1 cu c2 wt c3 c4 show ?thesis
    by (auto simp: resourceAutomationPowerShell72ModuleCreate_def Let_def
        split: option.splits sum.splits)
qed

text \<open>
  C6 (as amended): each of the three create operations first fetches the resource by its ID.
  When the existence check does not report not-found, the create fails and the fetch is the only
  call it has issued: the error is the import-as-exists error when the fetch itself succeeded,
  and the wrapped error of the fetch otherwise. For the PowerShell 7.2 module this holds unless
  the fetch succeeded and the existing module is global.
\<close>

theorem create_when_resource_exists:
  fixes viewsClient :: "('r1, ScopedViewId, 'm1, 'p1) sdk_client"
    and targetsClient :: "('r2, TargetId, Target, Target) sdk_client"
    and moduleClient :: "('r3, PowerShell72ModuleId, Module, 'p3) sdk_client"
  defines "viewId d f \<equiv> NewScopedViewID (GetString d f) (GetString d ''name'')"
    and "targetId sub model \<equiv> NewTargetID sub (trm_ResourceGroup model)
           (trm_ParentProviderNamespace model) (trm_ParentResourceType model)
           (trm_ParentName model) (trm_Name model)"
    and "moduleId sub d \<equiv> NewPowerShell72ModuleID sub (GetString d ''resource_group_name'')
                  (GetString d ''automation_account_name'') (GetString d ''name'')"
  shows
  "(\<exists>rest. calls (fst (snd (createFunc rn f viewsClient vp wv dv))) =
       calls wv @ GetCall (viewId dv f) # rest) \<and>
   (doGet viewsClient wv (viewId dv f) = ((existingv, errv), wv1) \<and>
    \<not> WasNotFound (HttpResponse existingv) \<longrightarrow>
      createFunc rn f viewsClient vp wv dv =
        (Some (case errv of
                 None \<Rightarrow> ImportAsExists rn (sdk_ID viewsClient (viewId dv f))
               | Some e \<Rightarrow> CheckingPresence (sdk_ID viewsClient (viewId dv f)) e), wv1, dv) \<and>
      calls wv1 = calls wv @ [GetCall (viewId dv f)]) \<and>
   (decode dt = Inr model \<longrightarrow>
      (\<exists>rest. calls (fst (snd (TargetResource_Create targetsClient decode sub wt dt))) =
         calls wt @ GetCall (targetId sub model) # rest)) \<and>
   (decode dt = Inr model \<and>
    doGet targetsClient wt (targetId sub model) = ((existingt, errt), wt1) \<and>
    \<not> WasNotFound (HttpResponse existingt) \<longrightarrow>
      TargetResource_Create targetsClient decode sub wt dt =
        (Some (case errt of
                 None \<Rightarrow> ImportAsExists ''azurerm_chaos_target''
                           (sdk_ID targetsClient (targetId sub model))
               | Some e \<Rightarrow> CheckingPresence (sdk_ID targetsClient (targetId sub model)) e),
         wt1, dt) \<and>
      calls wt1 = calls wt @ [GetCall (targetId sub model)]) \<and>
   (\<exists>rest. calls (fst (snd (resourceAutomationPowerShell72ModuleCreate moduleClient expand
        sub timeout wm dm))) = calls wm @ GetCall (moduleId sub dm) # rest) \<and>
   (doGet moduleClient wm (moduleId sub dm) = ((existingm, errm), wm1) \<and>
    \<not> WasNotFound (HttpResponse existingm) \<and>
    (errm \<noteq> None \<or> \<not> isGlobalModule existingm) \<longrightarrow>
      resourceAutomationPowerShell72ModuleCreate moduleClient expand sub timeout wm dm =
        (Some (case errm of
                 None \<Rightarrow> ImportAsExists ''azurerm_automation_powershell72_module''
                           (sdk_ID moduleClient (moduleId sub dm))
               | Some e \<Rightarrow> CheckingPresence (sdk_ID moduleClient (moduleId sub dm)) e),
         wm1, dm) \<and>
      calls wm1 = calls wm @ [GetCall (moduleId sub dm)])"
  unfolding viewId_def targetId_def moduleId_def
proof (intro conjI impI)
  show "\<exists>rest. calls (fst (snd (createFunc rn f viewsClient vp wv dv))) =
       calls wv @ GetCall (NewScopedViewID (GetString dv f) (GetString dv ''name'')) # rest"
    by (rule createFunc_first_call)
next
  assume a: "doGet viewsClient wv (NewScopedViewID (GetString dv f) (GetString dv ''name'')) =
      ((existingv, errv), wv1) \<and> \<not> WasNotFound (HttpResponse existingv)"
  then show "createFunc rn f viewsClient vp wv dv =
        (Some (case errv of
                 None \<Rightarrow> ImportAsExists rn
                   (sdk_ID viewsClient (NewScopedViewID (GetString dv f) (GetString dv ''name'')))
               | Some e \<Rightarrow> CheckingPresence
                   (sdk_ID viewsClient (NewScopedViewID (GetString dv f) (GetString dv ''name''))) e),
         wv1, dv)"
    by (simp add: createFunc_exists)
  from a show "calls wv1 =
      calls wv @ [GetCall (NewScopedViewID (GetString dv f) (GetString dv ''name''))]"
    by (auto dest: doGet_calls)
next
  assume "decode dt = Inr model"
  then show "\<exists>rest. calls (fst (snd (TargetResource_Create targetsClient decode sub wt dt))) =
         calls wt @ GetCall (NewTargetID sub (trm_ResourceGroup model)
           (trm_ParentProviderNamespace model) (trm_ParentResourceType model)
           (trm_ParentName model) (trm_Name model)) # rest"
    by (rule TargetResource_Create_first_call)
next
  assume a: "decode dt = Inr model \<and>
    doGet targetsClient wt (NewTargetID sub (trm_ResourceGroup model)
           (trm_ParentProviderNamespace model) (trm_ParentResourceType model)
           (trm_ParentName model) (trm_Name model)) = ((existingt, errt), wt1) \<and>
    \<not> WasNotFound (HttpResponse existingt)"
  then show "TargetResource_Create targetsClient decode sub wt dt =
        (Some (case errt of
                 None \<Rightarrow> ImportAsExists ''azurerm_chaos_target''
                           (sdk_ID targetsClient (NewTargetID sub (trm_ResourceGroup model)
           (trm_ParentProviderNamespace model) (trm_ParentResourceType model)
           (trm_ParentName model) (trm_Name model)))
               | Some e \<Rightarrow> CheckingPresence (sdk_ID targetsClient (NewTargetID sub (trm_ResourceGroup model)
           (trm_ParentProviderNamespace model) (trm_ParentResourceType model)
           (trm_ParentName model) (trm_Name model))) e),
         wt1, dt)"
    by (simp add: TargetResource_Create_exists)
  from a show "calls wt1 = calls wt @ [GetCall (NewTargetID sub (trm_ResourceGroup model)
           (trm_ParentProviderNamespace model) (trm_ParentResourceType model)
           (trm_ParentName model) (trm_Name model))]"
    by (auto dest: doGet_calls)
next
  show "\<exists>rest. calls (fst (snd (resourceAutomationPowerShell72ModuleCreate moduleClient expand
        sub timeout wm dm))) = calls wm @ GetCall (NewPowerShell72ModuleID sub (GetString dm ''resource_group_name'')
                  (GetString dm ''automation_account_name'') (GetString dm ''name'')) # rest"
    by (rule moduleCreate_first_call)
next
  assume a: "doGet moduleClient wm (NewPowerShell72ModuleID sub (GetString dm ''resource_group_name'')
                  (GetString dm ''automation_account_name'') (GetString dm ''name'')) = ((existingm, errm), wm1) \<and>
    \<not> WasNotFound (HttpResponse existingm) \<and>
    (errm \<noteq> None \<or> \<not> isGlobalModule existingm)"
  then show "resourceAutomationPowerShell72ModuleCreate moduleClient expand sub timeout wm dm =
        (Some (case errm of
                 None \<Rightarrow> ImportAsExists ''azurerm_automation_powershell72_module''
                           (sdk_ID moduleClient (NewPowerShell72ModuleID sub (GetString dm ''resource_group_name'')
                  (GetString dm ''automation_account_name'') (GetString dm ''name'')))
               | Some e \<Rightarrow> CheckingPresence (sdk_ID moduleClient (NewPowerShell72ModuleID sub (GetString dm ''resource_group_name'')
                  (GetString dm ''automation_account_name'') (GetString dm ''name''))) e),
         wm1, dm)"
    by (intro moduleCreate_exists) blast+
  from a show "calls wm1 = calls wm @ [GetCall (NewPowerShell72ModuleID sub (GetString dm ''resource_group_name'')
                  (GetString dm ''automation_account_name'') (GetString dm ''name''))]"
    by (auto dest: doGet_calls)
qed

lemmas example_defs = fixedClient_def emptyWorld_def configured_def moduleClient_def
  scriptedModuleClient_def moduleFailed_def
  viewsClient_def targetsClient_def moduleFound_def requestFailed_def moduleConfig_def
  viewConfig_def targetModel_def targetState_def

lemmas operation_defs = doGet_def doCreateOrUpdate_def GetString_def SetString_def
  WasNotFound_def MarkAsGone_def Let_def

text \<open>
  Two runs against the statement that a create of an existing resource always fails with the
  import-as-exists error and issues no write: the create of a PowerShell 7.2 module that exists
  and is global goes on to create-or-update it and succeeds, and the create of a view whose
  fetch fails with status 500 returns the wrapped error of the fetch.
\<close>

theorem create_counterexample:
  "\<not> WasNotFound (HttpResponse (fst (moduleFound (Some True) ''Succeeded''))) \<and>
   resourceAutomationPowerShell72ModuleCreate (moduleClient (moduleFound (Some True) ''Succeeded''))
     (\<lambda>d. ()) ''sub1'' 3 emptyWorld moduleConfig =
   (None,
    \<lparr>remote = (),
     calls = [GetCall (NewPowerShell72ModuleID ''sub1'' ''rg1'' ''account1'' ''Az.Accounts''),
              CreateOrUpdateCall (NewPowerShell72ModuleID ''sub1'' ''rg1'' ''account1'' ''Az.Accounts''),
              GetCall (NewPowerShell72ModuleID ''sub1'' ''rg1'' ''account1'' ''Az.Accounts''),
              GetCall (NewPowerShell72ModuleID ''sub1'' ''rg1'' ''account1'' ''Az.Accounts'')]\<rparr>,
    moduleConfig\<lparr>Id := ''Az.Accounts''\<rparr>) \<and>
   \<not> WasNotFound (HttpResponse (fst (requestFailed 500 :: unit sdk_response \<times> error option))) \<and>
   createFunc ''azurerm_subscription_cost_management_view'' ''subscription_id''
     (viewsClient (requestFailed 500)) (\<lambda>d etag. ()) emptyWorld viewConfig =
   (Some (CheckingPresence ''view1'' (ApiError ''request failed'')),
    \<lparr>remote = (), calls = [GetCall (NewScopedViewID ''/subscriptions/sub1'' ''view1'')]\<rparr>,
    viewConfig)"
  by (simp add: resourceAutomationPowerShell72ModuleCreate_def example_defs operation_defs
      isGlobalModule_def WaitForStateContext_def stateConf_def moduleRefresh_def
      resourceAutomationPowerShell72ModuleRead_def NewPowerShell72ModuleID_def
      pendingProvisioningStates_def targetProvisioningStates_def numeral_3_eq_3
      createFunc_def NewScopedViewID_def createOrUpdateCostManagementView_def fun_upd_idem)

theorem create_when_resource_exists_witness:
  "(\<not> WasNotFound (Some 200) \<and>
    createFunc ''azurerm_subscription_cost_management_view'' ''subscription_id''
      (viewsClient (\<lparr>HttpResponse = Some 200, Model = Some ()\<rparr>, None)) (\<lambda>d etag. ())
      emptyWorld viewConfig =
    (Some (ImportAsExists ''azurerm_subscription_cost_management_view'' ''view1''),
     \<lparr>remote = (), calls = [GetCall (NewScopedViewID ''/subscriptions/sub1'' ''view1'')]\<rparr>,
     viewConfig)) \<and>
   (TargetResource_Create
      (targetsClient (\<lparr>HttpResponse = Some 200,
                       Model = Some \<lparr>tgt_Location = Some ''westeurope'', tgt_Properties = None\<rparr>\<rparr>,
                      None))
      (\<lambda>d. Inr targetModel) ''sub1'' emptyWorld targetState =
    (Some (ImportAsExists ''azurerm_chaos_target'' ''Microsoft-VirtualMachine''),
     \<lparr>remote = (),
      calls = [GetCall (NewTargetID ''sub1'' ''rg1'' ''Microsoft.Compute'' ''virtualMachines''
                          ''vm1'' ''Microsoft-VirtualMachine'')]\<rparr>,
     targetState)) \<and>
   (\<not> isGlobalModule (fst (moduleFound None ''Succeeded'')) \<and>
    resourceAutomationPowerShell72ModuleCreate (moduleClient (moduleFound None ''Succeeded''))
      (\<lambda>d. ()) ''sub1'' 3 emptyWorld moduleConfig =
    (Some (ImportAsExists ''azurerm_automation_powershell72_module'' ''Az.Accounts''),
     \<lparr>remote = (),
      calls = [GetCall (NewPowerShell72ModuleID ''sub1'' ''rg1'' ''account1'' ''Az.Accounts'')]\<rparr>,
     moduleConfig))"
proof (intro conjI)
  show "\<not> WasNotFound (Some 200)"
    by (simp add: WasNotFound_def)
  have hv: "doGet (viewsClient (\<lparr>HttpResponse = Some 200, Model = Some ()\<rparr>, None)) emptyWorld
        (NewScopedViewID (GetString viewConfig ''subscription_id'') (GetString viewConfig ''name'')) =
      ((\<lparr>HttpResponse = Some 200, Model = Some ()\<rparr>, None),
       \<lparr>remote = (), calls = [GetCall (NewScopedViewID ''/subscriptions/sub1'' ''view1'')]\<rparr>) \<and>
      \<not> WasNotFound (HttpResponse \<lparr>HttpResponse = Some 200, Model = Some ()\<rparr>)"
    by (simp add: example_defs operation_defs)
  from create_when_resource_exists
    [THEN conjunct2, THEN conjunct1, THEN mp, OF hv, THEN conjunct1,
      of "''azurerm_subscription_cost_management_view''" "\<lambda>d etag. ()"]
  show "createFunc ''azurerm_subscription_cost_management_view'' ''subscription_id''
      (viewsClient (\<lparr>HttpResponse = Some 200, Model = Some ()\<rparr>, None)) (\<lambda>d etag. ())
      emptyWorld viewConfig =
    (Some (ImportAsExists ''azurerm_subscription_cost_management_view'' ''view1''),
     \<lparr>remote = (), calls = [GetCall (NewScopedViewID ''/subscriptions/sub1'' ''view1'')]\<rparr>,
     viewConfig)"
    by (simp add: example_defs operation_defs NewScopedViewID_def)
  have ht: "(\<lambda>d. Inr targetModel) targetState = Inr targetModel \<and>
      doGet (targetsClient (\<lparr>HttpResponse = Some 200,
                       Model = Some \<lparr>tgt_Location = Some ''westeurope'', tgt_Properties = None\<rparr>\<rparr>,
                      None)) emptyWorld
        (NewTargetID ''sub1'' (trm_ResourceGroup targetModel)
           (trm_ParentProviderNamespace targetModel) (trm_ParentResourceType targetModel)
           (trm_ParentName targetModel) (trm_Name targetModel)) =
      ((\<lparr>HttpResponse = Some 200,
         Model = Some \<lparr>tgt_Location = Some ''westeurope'', tgt_Properties = None\<rparr>\<rparr>, None),
       \<lparr>remote = (),
        calls = [GetCall (NewTargetID ''sub1'' ''rg1'' ''Microsoft.Compute'' ''virtualMachines''
                          ''vm1'' ''Microsoft-VirtualMachine'')]\<rparr>) \<and>
      \<not> WasNotFound (HttpResponse \<lparr>HttpResponse = Some 200,
         Model = Some \<lparr>tgt_Location = Some ''westeurope'', tgt_Properties = None\<rparr>\<rparr>)"
    by (simp add: example_defs operation_defs)
  from create_when_resource_exists
    [THEN conjunct2, THEN conjunct2, THEN conjunct2, THEN conjunct1, THEN mp, OF ht,
      THEN conjunct1]
  show "TargetResource_Create
      (targetsClient (\<lparr>HttpResponse = Some 200,
                       Model = Some \<lparr>tgt_Location = Some ''westeurope'', tgt_Properties = None\<rparr>\<rparr>,
                      None))
      (\<lambda>d. Inr targetModel) ''sub1'' emptyWorld targetState =
    (Some (ImportAsExists ''azurerm_chaos_target'' ''Microsoft-VirtualMachine''),
     \<lparr>remote = (),
      calls = [GetCall (NewTargetID ''sub1'' ''rg1'' ''Microsoft.Compute'' ''virtualMachines''
                          ''vm1'' ''Microsoft-VirtualMachine'')]\<rparr>,
     targetState)"
    by (simp add: example_defs operation_defs NewTargetID_def)
  show ng: "\<not> isGlobalModule (fst (moduleFound None ''Succeeded''))"
    by (simp add: isGlobalModule_def moduleFound_def)
  have hm: "doGet (moduleClient (moduleFound None ''Succeeded'')) emptyWorld
        (NewPowerShell72ModuleID ''sub1'' (GetString moduleConfig ''resource_group_name'')
           (GetString moduleConfig ''automation_account_name'') (GetString moduleConfig ''name'')) =
      ((fst (moduleFound None ''Succeeded''), None),
       \<lparr>remote = (),
        calls = [GetCall (NewPowerShell72ModuleID ''sub1'' ''rg1'' ''account1'' ''Az.Accounts'')]\<rparr>) \<and>
      \<not> WasNotFound (HttpResponse (fst (moduleFound None ''Succeeded''))) \<and>
      (None \<noteq> (None :: error option) \<or> \<not> isGlobalModule (fst (moduleFound None ''Succeeded'')))"
    using ng by (simp add: example_defs operation_defs)
  from create_when_resource_exists
    [THEN conjunct2, THEN conjunct2, THEN conjunct2, THEN conjunct2, THEN conjunct2,
      THEN mp, OF hm, THEN conjunct1, of "\<lambda>d. ()" 3]
  show "resourceAutomationPowerShell72ModuleCreate (moduleClient (moduleFound None ''Succeeded''))
      (\<lambda>d. ()) ''sub1'' 3 emptyWorld moduleConfig =
    (Some (ImportAsExists ''azurerm_automation_powershell72_module'' ''Az.Accounts''),
     \<lparr>remote = (),
      calls = [GetCall (NewPowerShell72ModuleID ''sub1'' ''rg1'' ''account1'' ''Az.Accounts'')]\<rparr>,
     moduleConfig)"
    by (simp add: example_defs operation_defs NewPowerShell72ModuleID_def)
qed

section \<open>Reading a resource that is gone\<close>

text \<open>
  What each read does with a failed fetch. The view and the module are removed from the state
  exactly on not-found; the chaos target has the test the other way round; the role assignment
  has no not-found branch.
\<close>

lemma readFunc_get_failure:
  assumes "sdk_ParseID client (Id d) = Inr i" and "doGet client w i = ((resp, Some err), w1)"
  shows "readFunc f client setAttributes w d =
           (if WasNotFound (HttpResponse resp) then (None, w1, d\<lparr>Id := []\<rparr>)
            else (Some (ReadingError (sdk_ID client i) err), w1, d))"
  using assms by (simp add: readFunc_def MarkAsGone_def)

lemma moduleRead_get_failure:
  assumes "sdk_ParseID client (Id d) = Inr i" and "doGet client w i = ((resp, Some err), w1)"
  shows "resourceAutomationPowerShell72ModuleRead client w d =
           (if WasNotFound (HttpResponse resp) then (None, w1, d\<lparr>Id := []\<rparr>)
            else (Some (MakingReadRequest (sdk_ID client i) err), w1, d))"
  using assms by (simp add: resourceAutomationPowerShell72ModuleRead_def)

lemma TargetResource_Read_get_failure:
  assumes "sdk_ParseID client (Id d) = Inr i" and "doGet client w i = ((resp, Some err), w1)"
  shows "TargetResource_Read client encode nrm w d =
           (if WasNotFound (HttpResponse resp)
            then (Some (CheckingTargetExistence (tid_TargetName i) err), w1, d)
            else (None, w1, d\<lparr>Id := []\<rparr>))"
  using assms by (simp add: TargetResource_Read_def MarkAsGone_def)

lemma cosmosRead_get_failure:
  assumes "SqlRoleAssigmentID (Id d) = Inr i" and "doGet client w i = ((resp, Some err), w1)"
  shows "resourceCosmosDbRoleAssignmentRead client w d =
           (Some (RetrievingError (SqlRoleAssigmentId_ID i) err), w1, d)"
  using assms by (simp add: resourceCosmosDbRoleAssignmentRead_def)

text \<open>
  C7 fails on \<open>TargetResource.Read\<close>: when the fetch fails with status 500 the target is
  removed from the state and no error is returned, and when it fails with status 404 the error
  is returned and the target stays in the state.
\<close>

theorem TargetResource_Read_inverted:
  "TargetResource_Read (targetsClient (requestFailed 500)) (\<lambda>m d. (None, d))
     (\<lambda>l. case l of None \<Rightarrow> [] | Some x \<Rightarrow> x) emptyWorld targetState =
   (None,
    \<lparr>remote = (),
     calls = [GetCall (NewTargetID ''sub1'' ''rg1'' ''Microsoft.Compute'' ''virtualMachines''
                         ''vm1'' ''Microsoft-VirtualMachine'')]\<rparr>,
    targetState\<lparr>Id := []\<rparr>) \<and>
   TargetResource_Read (targetsClient (requestFailed 404)) (\<lambda>m d. (None, d))
     (\<lambda>l. case l of None \<Rightarrow> [] | Some x \<Rightarrow> x) emptyWorld targetState =
   (Some (CheckingTargetExistence ''Microsoft-VirtualMachine'' (ApiError ''request failed'')),
    \<lparr>remote = (),
     calls = [GetCall (NewTargetID ''sub1'' ''rg1'' ''Microsoft.Compute'' ''virtualMachines''
                         ''vm1'' ''Microsoft-VirtualMachine'')]\<rparr>,
    targetState)"
  by (simp add: TargetResource_Read_def example_defs operation_defs NewTargetID_def)

section \<open>Waiting for the module to be provisioned\<close>

lemma refreshRuns_length: "length (refreshRuns rf n w) = n"
  by (induction n arbitrary: w) (auto split: prod.splits)

lemma waitLoop_success:
  "waitLoop conf n w = (Inr res, w') \<Longrightarrow>
   \<exists>k<n. obs_state (refreshRuns (Refresh conf) n w ! k) \<in> set (Target conf) \<and>
         obs_error (refreshRuns (Refresh conf) n w ! k) = None \<and>
         obs_world (refreshRuns (Refresh conf) n w ! k) = w' \<and>
         (\<forall>j<k. pending_observation conf (refreshRuns (Refresh conf) n w ! j))"
proof (induction n arbitrary: w)
  case 0
  then show ?case by simp
next
  case (Suc n)
  obtain r st err w1 where rf: "Refresh conf w = ((r, st, err), w1)"
    by (metis surj_pair)
  have runs: "refreshRuns (Refresh conf) (Suc n) w = (st, err, w1) # refreshRuns (Refresh conf) n w1"
    by (simp add: rf)
  show ?case
  proof (cases "err = None \<and> st \<notin> set (Target conf) \<and> st \<in> set (Pending conf)")
    case True
    with Suc.prems rf have "waitLoop conf n w1 = (Inr res, w')"
      by simp
    from Suc.IH [OF this] obtain k where k: "k < n"
      "obs_state (refreshRuns (Refresh conf) n w1 ! k) \<in> set (Target conf)"
      "obs_error (refreshRuns (Refresh conf) n w1 ! k) = None"
      "obs_world (refreshRuns (Refresh conf) n w1 ! k) = w'"
      "\<forall>j<k. pending_observation conf (refreshRuns (Refresh conf) n w1 ! j)"
      by blast
    have "\<forall>j<Suc k. pending_observation conf (refreshRuns (Refresh conf) (Suc n) w ! j)"
    proof (intro allI impI)
      fix j assume "j < Suc k"
      with True k(5) show "pending_observation conf (refreshRuns (Refresh conf) (Suc n) w ! j)"
        unfolding runs
        by (cases j) (simp_all add: pending_observation_def obs_error_def obs_state_def)
    qed
    with k(1-4) show ?thesis
      unfolding runs by (intro exI [of _ "Suc k"]) simp
  next
    case False
    with Suc.prems rf have "err = None" "st \<in> set (Target conf)" "w' = w1"
      by (auto split: option.splits if_splits)
    then show ?thesis
      unfolding runs
      by (intro exI [of _ 0]) (simp add: obs_state_def obs_error_def obs_world_def)
  qed
qed

lemma waitLoop_error:
  "k < n \<Longrightarrow> \<forall>j<k. pending_observation conf (refreshRuns (Refresh conf) n w ! j) \<Longrightarrow>
   obs_error (refreshRuns (Refresh conf) n w ! k) = Some e \<Longrightarrow>
   waitLoop conf n w = (Inl e, obs_world (refreshRuns (Refresh conf) n w ! k))"
proof (induction n arbitrary: w k)
  case 0
  then show ?case by simp
next
  case (Suc n)
  obtain r st err w1 where rf: "Refresh conf w = ((r, st, err), w1)"
    by (metis surj_pair)
  have runs: "refreshRuns (Refresh conf) (Suc n) w = (st, err, w1) # refreshRuns (Refresh conf) n w1"
    by (simp add: rf)
  show ?case
  proof (cases k)
    case 0
    with Suc.prems(3) rf show ?thesis
      unfolding runs by (simp add: obs_error_def obs_world_def)
  next
    case (Suc k')
    from Suc.prems(2) have first: "pending_observation conf (st, err, w1)"
      unfolding runs Suc by (auto dest: spec [of _ 0])
    from Suc.prems(2) have rest: "\<forall>j<k'. pending_observation conf (refreshRuns (Refresh conf) n w1 ! j)"
      unfolding runs Suc by (auto dest: spec [of _ "Suc j" for j])
    from Suc.prems(1) Suc have "k' < n" by simp
    from Suc.IH [OF this rest] Suc.prems(3)
    have "waitLoop conf n w1 = (Inl e, obs_world (refreshRuns (Refresh conf) n w1 ! k'))"
      unfolding runs Suc by simp
    with first rf show ?thesis
      unfolding runs Suc
      by (simp add: pending_observation_def obs_error_def obs_state_def)
  qed
qed

lemma waitLoop_timeout:
  "\<forall>j<n. pending_observation conf (refreshRuns (Refresh conf) n w ! j) \<Longrightarrow>
   waitLoop conf n w =
     (Inl TimeoutError, if n = 0 then w else obs_world (refreshRuns (Refresh conf) n w ! (n - 1)))"
proof (induction n arbitrary: w)
  case 0
  then show ?case by simp
next
  case (Suc n)
  obtain r st err w1 where rf: "Refresh conf w = ((r, st, err), w1)"
    by (metis surj_pair)
  have runs: "refreshRuns (Refresh conf) (Suc n) w = (st, err, w1) # refreshRuns (Refresh conf) n w1"
    by (simp add: rf)
  from Suc.prems have first: "pending_observation conf (st, err, w1)"
    unfolding runs by (auto dest: spec [of _ 0])
  from Suc.prems have rest: "\<forall>j<n. pending_observation conf (refreshRuns (Refresh conf) n w1 ! j)"
    unfolding runs by (auto dest: spec [of _ "Suc j" for j])
  from Suc.IH [OF rest] first rf show ?case
    unfolding runs
    by (cases n) (simp_all add: pending_observation_def obs_error_def obs_state_def obs_world_def)
qed

lemma moduleRefresh_eq:
  "moduleRefresh client i w =
     (case doGet client w i of
        ((resp, Some err2), w1) \<Rightarrow>
          ((resp, ''Error'', Some (RetrievingError (sdk_ID client i) err2)), w1)
      | ((resp, None), w1) \<Rightarrow>
          ((resp, reportedProvisioningState resp,
            if reportedErrorMessage resp \<noteq> [] then Some (ModuleErrorMessage (reportedErrorMessage resp))
            else None), w1))"
  by (simp add: moduleRefresh_def reportedProvisioningState_def reportedErrorMessage_def Let_def
      split: prod.splits option.splits)

lemma stateConf_pending:
  "pending_observation (stateConf client i timeout) ob \<longleftrightarrow>
     obs_error ob = None \<and> obs_state ob \<in> set pendingProvisioningStates"
  by (auto simp: pending_observation_def stateConf_def targetProvisioningStates_def
      pendingProvisioningStates_def)

lemma refreshRuns_calls:
  "k < n \<Longrightarrow>
   calls (obs_world (refreshRuns (moduleRefresh client i) n w ! k)) =
     calls w @ replicate (Suc k) (GetCall i)"
proof (induction n arbitrary: w k)
  case 0
  then show ?case by simp
next
  case (Suc n)
  obtain r st err w1 where rf: "moduleRefresh client i w = ((r, st, err), w1)"
    by (metis surj_pair)
  note c = moduleRefresh_calls [OF rf]
  show ?case
  proof (cases k)
    case 0
    with rf c show ?thesis
      by (simp add: obs_world_def)
  next
    case (Suc k')
    with Suc.prems have "k' < n" by simp
    from Suc.IH [OF this, of w1] rf c Suc show ?thesis
      by (simp add: obs_world_def)
  qed
qed

lemma moduleCreate_started:
  assumes "doGet client w (NewPowerShell72ModuleID sub (GetString d ''resource_group_name'')
                  (GetString d ''automation_account_name'') (GetString d ''name'')) =
             ((existing, err), w1)"
    and "err = None \<or> WasNotFound (HttpResponse existing)"
    and "WasNotFound (HttpResponse existing) \<or> isGlobalModule existing"
    and "doCreateOrUpdate client w1 (NewPowerShell72ModuleID sub (GetString d ''resource_group_name'')
                  (GetString d ''automation_account_name'') (GetString d ''name'')) (expand d) =
             (None, w2)"
  shows "resourceAutomationPowerShell72ModuleCreate client expand sub timeout w d =
     (case WaitForStateContext (stateConf client (NewPowerShell72ModuleID sub
                  (GetString d ''resource_group_name'')
                  (GetString d ''automation_account_name'') (GetString d ''name'')) timeout) w2 of
        (Inl e, w3) \<Rightarrow>
          (Some (WaitingForProvisioning (sdk_ID client (NewPowerShell72ModuleID sub
                  (GetString d ''resource_group_name'')
                  (GetString d ''automation_account_name'') (GetString d ''name''))) e), w3, d)
      | (Inr res, w3) \<Rightarrow>
          resourceAutomationPowerShell72ModuleRead client w3
            (d\<lparr>Id := sdk_ID client (NewPowerShell72ModuleID sub
                  (GetString d ''resource_group_name'')
                  (GetString d ''automation_account_name'') (GetString d ''name''))\<rparr>))"
  using assms
  by (auto simp: resourceAutomationPowerShell72ModuleCreate_def Let_def)

lemma moduleCreate_success:
  assumes "fst (resourceAutomationPowerShell72ModuleCreate client expand sub timeout w d) = None"
  shows "\<exists>existing err w1 w2 res w3.
           doGet client w (NewPowerShell72ModuleID sub (GetString d ''resource_group_name'')
                  (GetString d ''automation_account_name'') (GetString d ''name'')) =
             ((existing, err), w1) \<and>
           (err = None \<or> WasNotFound (HttpResponse existing)) \<and>
           (WasNotFound (HttpResponse existing) \<or> isGlobalModule existing) \<and>
           doCreateOrUpdate client w1 (NewPowerShell72ModuleID sub (GetString d ''resource_group_name'')
                  (GetString d ''automation_account_name'') (GetString d ''name'')) (expand d) =
             (None, w2) \<and>
           WaitForStateContext (stateConf client (NewPowerShell72ModuleID sub
                  (GetString d ''resource_group_name'')
                  (GetString d ''automation_account_name'') (GetString d ''name'')) timeout) w2 =
             (Inr res, w3)"
proof -
  let ?id = "NewPowerShell72ModuleID sub (GetString d ''resource_group_name'')
                  (GetString d ''automation_account_name'') (GetString d ''name'')"
  obtain existing err w1 where g: "doGet client w ?id = ((existing, err), w1)"
    by (metis surj_pair)
  obtain e2 w2 where cu: "doCreateOrUpdate client w1 ?id (expand d) = (e2, w2)"
    by (metis surj_pair)
  obtain r3 w3 where wt: "WaitForStateContext (stateConf client ?id timeout) w2 = (r3, w3)"
    by (metis surj_pair)
  from assms g cu wt have "(err = None \<or> WasNotFound (HttpResponse existing)) \<and>
      (WasNotFound (HttpResponse existing) \<or> isGlobalModule existing) \<and> e2 = None \<and>
      (\<exists>res. r3 = Inr res)"
    by (auto simp: resourceAutomationPowerShell72ModuleCreate_def Let_def
        split: if_splits option.splits sum.splits)
  with g cu wt show ?thesis
    by blast
qed

text \<open>
  C9: the create of a PowerShell 7.2 module succeeds only if its existence check let it through,
  its create-or-update call succeeded and, among the refreshes that follow that call, one
  observed the state \<open>Succeeded\<close> without error, every refresh before it having observed a
  pending state without error; the create then returns what the read returns that starts where
  that observation ended. Once the create-or-update call has succeeded, the wait goes on
  through pending observations: if the first observation that is not such carries an error,
  the create returns that error, wrapped, after exactly that many reads; if all the refreshes
  the timeout allows observe pending states, the create returns the timeout error, wrapped. A
  refresh carries an error exactly when its read failed or the module reports a non-empty error
  message, and otherwise observes the provisioning state the module reports.
\<close>

theorem module_create_polls_until_succeeded:
  fixes client :: "('r, PowerShell72ModuleId, Module, 'p) sdk_client"
    and expand :: "ResourceData \<Rightarrow> 'p" and sub :: string and timeout :: nat
    and w :: "('r, PowerShell72ModuleId) world" and d :: ResourceData
  defines "mid \<equiv> NewPowerShell72ModuleID sub (GetString d ''resource_group_name'')
                  (GetString d ''automation_account_name'') (GetString d ''name'')"
  defines "create \<equiv> resourceAutomationPowerShell72ModuleCreate client expand sub timeout w d"
  defines "obs \<equiv> \<lambda>w2. refreshRuns (moduleRefresh client mid) timeout w2"
  defines "started \<equiv> \<lambda>w2. \<exists>existing err w1.
             doGet client w mid = ((existing, err), w1) \<and>
             (err = None \<or> WasNotFound (HttpResponse existing)) \<and>
             (WasNotFound (HttpResponse existing) \<or> isGlobalModule existing) \<and>
             doCreateOrUpdate client w1 mid (expand d) = (None, w2)"
  shows
  "(fst create = None \<longrightarrow>
      (\<exists>w2 k. started w2 \<and> k < timeout \<and> obs_state (obs w2 ! k) = ''Succeeded'' \<and>
         obs_error (obs w2 ! k) = None \<and>
         (\<forall>j<k. obs_error (obs w2 ! j) = None \<and>
                obs_state (obs w2 ! j) \<in> set pendingProvisioningStates) \<and>
         create = resourceAutomationPowerShell72ModuleRead client (obs_world (obs w2 ! k))
                    (d\<lparr>Id := sdk_ID client mid\<rparr>))) \<and>
   (started w2 \<and> k < timeout \<and>
    (\<forall>j<k. obs_error (obs w2 ! j) = None \<and>
           obs_state (obs w2 ! j) \<in> set pendingProvisioningStates) \<and>
    obs_error (obs w2 ! k) = Some e \<longrightarrow>
      create = (Some (WaitingForProvisioning (sdk_ID client mid) e), obs_world (obs w2 ! k), d) \<and>
      calls (obs_world (obs w2 ! k)) = calls w2 @ replicate (Suc k) (GetCall mid)) \<and>
   (started w2 \<and>
    (\<forall>j<timeout. obs_error (obs w2 ! j) = None \<and>
                 obs_state (obs w2 ! j) \<in> set pendingProvisioningStates) \<longrightarrow>
      create = (Some (WaitingForProvisioning (sdk_ID client mid) TimeoutError),
                if timeout = 0 then w2 else obs_world (obs w2 ! (timeout - 1)), d)) \<and>
   (\<forall>w0. (snd (snd (fst (moduleRefresh client mid w0))) \<noteq> None) =
           (snd (fst (doGet client w0 mid)) \<noteq> None \<or>
            reportedErrorMessage (fst (fst (doGet client w0 mid))) \<noteq> [])) \<and>
   (\<forall>w0. snd (fst (doGet client w0 mid)) = None \<longrightarrow>
      fst (snd (fst (moduleRefresh client mid w0))) =
        reportedProvisioningState (fst (fst (doGet client w0 mid))))"
proof (intro conjI impI allI)
  assume "fst create = None"
  then obtain existing err w1 w2 res w3 where st:
    "doGet client w mid = ((existing, err), w1)"
    "err = None \<or> WasNotFound (HttpResponse existing)"
    "WasNotFound (HttpResponse existing) \<or> isGlobalModule existing"
    "doCreateOrUpdate client w1 mid (expand d) = (None, w2)"
    and wt: "WaitForStateContext (stateConf client mid timeout) w2 = (Inr res, w3)"
    unfolding create_def mid_def using moduleCreate_success by blast
  from st have started: "started w2"
    unfolding started_def by blast
  from wt have "waitLoop (stateConf client mid timeout) timeout w2 = (Inr res, w3)"
    by (simp add: WaitForStateContext_def stateConf_def)
  from waitLoop_success [OF this] obtain k where k: "k < timeout"
    "obs_state (obs w2 ! k) \<in> set targetProvisioningStates"
    "obs_error (obs w2 ! k) = None"
    "obs_world (obs w2 ! k) = w3"
    "\<forall>j<k. pending_observation (stateConf client mid timeout) (obs w2 ! j)"
    unfolding obs_def by (auto simp: stateConf_def)
  from k(2) have succ: "obs_state (obs w2 ! k) = ''Succeeded''"
    by (simp add: targetProvisioningStates_def)
  from st have "create =
      (case WaitForStateContext (stateConf client mid timeout) w2 of
        (Inl e, w3) \<Rightarrow> (Some (WaitingForProvisioning (sdk_ID client mid) e), w3, d)
      | (Inr res, w3) \<Rightarrow>
          resourceAutomationPowerShell72ModuleRead client w3 (d\<lparr>Id := sdk_ID client mid\<rparr>))"
    unfolding create_def mid_def by (rule moduleCreate_started)
  then have rd: "create = resourceAutomationPowerShell72ModuleRead client (obs_world (obs w2 ! k))
                    (d\<lparr>Id := sdk_ID client mid\<rparr>)"
    by (simp add: wt k(4))
  from k(5) have pend: "\<forall>j<k. obs_error (obs w2 ! j) = None \<and>
                obs_state (obs w2 ! j) \<in> set pendingProvisioningStates"
    unfolding stateConf_pending .
  from started k(1) succ k(3) pend rd
  show "\<exists>w2 k. started w2 \<and> k < timeout \<and> obs_state (obs w2 ! k) = ''Succeeded'' \<and>
         obs_error (obs w2 ! k) = None \<and>
         (\<forall>j<k. obs_error (obs w2 ! j) = None \<and>
                obs_state (obs w2 ! j) \<in> set pendingProvisioningStates) \<and>
         create = resourceAutomationPowerShell72ModuleRead client (obs_world (obs w2 ! k))
                    (d\<lparr>Id := sdk_ID client mid\<rparr>)"
    by (intro exI [of _ w2] exI [of _ k] conjI)
next
  assume a: "started w2 \<and> k < timeout \<and>
    (\<forall>j<k. obs_error (obs w2 ! j) = None \<and>
           obs_state (obs w2 ! j) \<in> set pendingProvisioningStates) \<and>
    obs_error (obs w2 ! k) = Some e"
  then have pend: "\<forall>j<k. pending_observation (stateConf client mid timeout)
      (refreshRuns (Refresh (stateConf client mid timeout)) timeout w2 ! j)"
    unfolding stateConf_pending obs_def by (simp add: stateConf_def)
  from a have err: "obs_error (refreshRuns (Refresh (stateConf client mid timeout)) timeout w2 ! k) = Some e"
    unfolding obs_def by (simp add: stateConf_def)
  from a have k: "k < timeout" by simp
  from waitLoop_error [OF k pend err]
  have wt: "WaitForStateContext (stateConf client mid timeout) w2 = (Inl e, obs_world (obs w2 ! k))"
    unfolding obs_def by (simp add: WaitForStateContext_def stateConf_def)
  from a obtain existing err w1 where
    "doGet client w mid = ((existing, err), w1)"
    "err = None \<or> WasNotFound (HttpResponse existing)"
    "WasNotFound (HttpResponse existing) \<or> isGlobalModule existing"
    "doCreateOrUpdate client w1 mid (expand d) = (None, w2)"
    unfolding started_def by blast
  then have "create =
      (case WaitForStateContext (stateConf client mid timeout) w2 of
        (Inl e, w3) \<Rightarrow> (Some (WaitingForProvisioning (sdk_ID client mid) e), w3, d)
      | (Inr res, w3) \<Rightarrow>
          resourceAutomationPowerShell72ModuleRead client w3 (d\<lparr>Id := sdk_ID client mid\<rparr>))"
    unfolding create_def mid_def by (rule moduleCreate_started)
  then show "create =
      (Some (WaitingForProvisioning (sdk_ID client mid) e), obs_world (obs w2 ! k), d)"
    by (simp add: wt)
  from k show "calls (obs_world (obs w2 ! k)) = calls w2 @ replicate (Suc k) (GetCall mid)"
    unfolding obs_def by (rule refreshRuns_calls)
next
  assume a: "started w2 \<and>
    (\<forall>j<timeout. obs_error (obs w2 ! j) = None \<and>
                 obs_state (obs w2 ! j) \<in> set pendingProvisioningStates)"
  then have pend: "\<forall>j<timeout. pending_observation (stateConf client mid timeout)
      (refreshRuns (Refresh (stateConf client mid timeout)) timeout w2 ! j)"
    unfolding stateConf_pending obs_def by (simp add: stateConf_def)
  from waitLoop_timeout [OF pend]
  have wt: "WaitForStateContext (stateConf client mid timeout) w2 =
      (Inl TimeoutError, if timeout = 0 then w2 else obs_world (obs w2 ! (timeout - 1)))"
    unfolding obs_def by (simp add: WaitForStateContext_def stateConf_def)
  from a obtain existing err w1 where
    "doGet client w mid = ((existing, err), w1)"
    "err = None \<or> WasNotFound (HttpResponse existing)"
    "WasNotFound (HttpResponse existing) \<or> isGlobalModule existing"
    "doCreateOrUpdate client w1 mid (expand d) = (None, w2)"
    unfolding started_def by blast
  then have "create =
      (case WaitForStateContext (stateConf client mid timeout) w2 of
        (Inl e, w3) \<Rightarrow> (Some (WaitingForProvisioning (sdk_ID client mid) e), w3, d)
      | (Inr res, w3) \<Rightarrow>
          resourceAutomationPowerShell72ModuleRead client w3 (d\<lparr>Id := sdk_ID client mid\<rparr>))"
    unfolding create_def mid_def by (rule moduleCreate_started)
  then show "create = (Some (WaitingForProvisioning (sdk_ID client mid) TimeoutError),
                if timeout = 0 then w2 else obs_world (obs w2 ! (timeout - 1)), d)"
    by (simp add: wt)
next
  fix w0
  show "(snd (snd (fst (moduleRefresh client mid w0))) \<noteq> None) =
           (snd (fst (doGet client w0 mid)) \<noteq> None \<or>
            reportedErrorMessage (fst (fst (doGet client w0 mid))) \<noteq> [])"
    by (simp add: moduleRefresh_eq split: prod.splits option.splits)
next
  fix w0
  assume "snd (fst (doGet client w0 mid)) = None"
  then show "fst (snd (fst (moduleRefresh client mid w0))) =
        reportedProvisioningState (fst (fst (doGet client w0 mid)))"
    by (cases "doGet client w0 mid") (auto simp: moduleRefresh_eq split: option.splits)
qed

text \<open>Runs of the create against scripted answers of the remote side.\<close>

lemmas module_defs = resourceAutomationPowerShell72ModuleCreate_def isGlobalModule_def
  WaitForStateContext_def stateConf_def moduleRefresh_def
  resourceAutomationPowerShell72ModuleRead_def NewPowerShell72ModuleID_def
  pendingProvisioningStates_def targetProvisioningStates_def

lemma scripted_success:
  "fst (resourceAutomationPowerShell72ModuleCreate scriptedModuleClient (\<lambda>d. ()) ''sub1'' 3
     \<lparr>remote = [requestFailed 404, moduleFound None ''Creating'',
                 moduleFound None ''Succeeded'', moduleFound None ''Succeeded''],
      calls = []\<rparr> moduleConfig) = None"
  by (simp add: module_defs example_defs operation_defs numeral_3_eq_3)

lemma scripted_started:
  "doGet scriptedModuleClient \<lparr>remote = requestFailed 404 # script, calls = []\<rparr>
     (NewPowerShell72ModuleID ''sub1'' (GetString moduleConfig ''resource_group_name'')
        (GetString moduleConfig ''automation_account_name'') (GetString moduleConfig ''name'')) =
   ((fst (requestFailed 404), snd (requestFailed 404)),
    \<lparr>remote = script,
     calls = [GetCall (NewPowerShell72ModuleID ''sub1'' ''rg1'' ''account1'' ''Az.Accounts'')]\<rparr>) \<and>
   (snd (requestFailed 404 :: Module sdk_response \<times> error option) = None \<or>
    WasNotFound (HttpResponse (fst (requestFailed 404 :: Module sdk_response \<times> error option)))) \<and>
   (WasNotFound (HttpResponse (fst (requestFailed 404 :: Module sdk_response \<times> error option))) \<or>
    isGlobalModule (fst (requestFailed 404))) \<and>
   doCreateOrUpdate scriptedModuleClient
     \<lparr>remote = script,
      calls = [GetCall (NewPowerShell72ModuleID ''sub1'' ''rg1'' ''account1'' ''Az.Accounts'')]\<rparr>
     (NewPowerShell72ModuleID ''sub1'' (GetString moduleConfig ''resource_group_name'')
        (GetString moduleConfig ''automation_account_name'') (GetString moduleConfig ''name''))
     ((\<lambda>d. ()) moduleConfig) =
   (None,
    \<lparr>remote = script,
     calls = [GetCall (NewPowerShell72ModuleID ''sub1'' ''rg1'' ''account1'' ''Az.Accounts''),
              CreateOrUpdateCall (NewPowerShell72ModuleID ''sub1'' ''rg1'' ''account1'' ''Az.Accounts'')]\<rparr>)"
  by (simp add: example_defs operation_defs)

lemma scripted_runs:
  "refreshRuns (moduleRefresh scriptedModuleClient
       (NewPowerShell72ModuleID ''sub1'' (GetString moduleConfig ''resource_group_name'')
          (GetString moduleConfig ''automation_account_name'') (GetString moduleConfig ''name'')))
     (Suc (Suc 0))
     \<lparr>remote = [a, b], calls = cs\<rparr> =
   [(if snd a = None then reportedProvisioningState (fst a) else ''Error'',
     if snd a = None
     then (if reportedErrorMessage (fst a) \<noteq> []
           then Some (ModuleErrorMessage (reportedErrorMessage (fst a))) else None)
     else Some (RetrievingError ''Az.Accounts'' (the (snd a))),
     \<lparr>remote = [b],
      calls = cs @ [GetCall (NewPowerShell72ModuleID ''sub1'' ''rg1'' ''account1'' ''Az.Accounts'')]\<rparr>),
    (if snd b = None then reportedProvisioningState (fst b) else ''Error'',
     if snd b = None
     then (if reportedErrorMessage (fst b) \<noteq> []
           then Some (ModuleErrorMessage (reportedErrorMessage (fst b))) else None)
     else Some (RetrievingError ''Az.Accounts'' (the (snd b))),
     \<lparr>remote = [],
      calls = cs @ [GetCall (NewPowerShell72ModuleID ''sub1'' ''rg1'' ''account1'' ''Az.Accounts''),
                    GetCall (NewPowerShell72ModuleID ''sub1'' ''rg1'' ''account1'' ''Az.Accounts'')]\<rparr>)]"
  by (cases a; cases b)
    (auto simp: moduleRefresh_eq example_defs operation_defs NewPowerShell72ModuleID_def)

lemma moduleConfig_id:
  "NewPowerShell72ModuleID ''sub1'' (GetString moduleConfig ''resource_group_name'')
     (GetString moduleConfig ''automation_account_name'') (GetString moduleConfig ''name'') =
   NewPowerShell72ModuleID ''sub1'' ''rg1'' ''account1'' ''Az.Accounts''"
  by (simp add: example_defs operation_defs)

lemma scripted_id:
  "sdk_ID scriptedModuleClient
     (NewPowerShell72ModuleID ''sub1'' (GetString moduleConfig ''resource_group_name'')
        (GetString moduleConfig ''automation_account_name'') (GetString moduleConfig ''name'')) =
   ''Az.Accounts''"
  by (simp add: example_defs operation_defs NewPowerShell72ModuleID_def)

theorem module_create_polls_until_succeeded_witness:
  "(fst (resourceAutomationPowerShell72ModuleCreate scriptedModuleClient (\<lambda>d. ()) ''sub1'' 3
      \<lparr>remote = [requestFailed 404, moduleFound None ''Creating'',
                  moduleFound None ''Succeeded'', moduleFound None ''Succeeded''],
       calls = []\<rparr> moduleConfig) = None \<and>
    (\<exists>w2 k.
       calls w2 = [GetCall (NewPowerShell72ModuleID ''sub1'' ''rg1'' ''account1'' ''Az.Accounts''),
                   CreateOrUpdateCall (NewPowerShell72ModuleID ''sub1'' ''rg1'' ''account1'' ''Az.Accounts'')] \<and>
       k < 3 \<and>
       obs_state (refreshRuns (moduleRefresh scriptedModuleClient
          (NewPowerShell72ModuleID ''sub1'' ''rg1'' ''account1'' ''Az.Accounts'')) 3 w2 ! k) =
         ''Succeeded'')) \<and>
   fst (resourceAutomationPowerShell72ModuleCreate scriptedModuleClient (\<lambda>d. ()) ''sub1''
      (Suc (Suc 0))
      \<lparr>remote = [requestFailed 404, moduleFound None ''Creating'', moduleFailed ''Failed'' ''boom''],
       calls = []\<rparr> moduleConfig) =
     Some (WaitingForProvisioning ''Az.Accounts'' (ModuleErrorMessage ''boom'')) \<and>
   fst (resourceAutomationPowerShell72ModuleCreate scriptedModuleClient (\<lambda>d. ()) ''sub1''
      (Suc (Suc 0))
      \<lparr>remote = [requestFailed 404, moduleFound None ''Creating'', moduleFound None ''Updating''],
       calls = []\<rparr> moduleConfig) =
     Some (WaitingForProvisioning ''Az.Accounts'' TimeoutError) \<and>
   fst (snd (fst (moduleRefresh scriptedModuleClient
      (NewPowerShell72ModuleID ''sub1'' ''rg1'' ''account1'' ''Az.Accounts'')
      \<lparr>remote = [moduleFound None ''Creating''], calls = []\<rparr>))) = ''Creating''"
proof (intro conjI)
  show ok: "fst (resourceAutomationPowerShell72ModuleCreate scriptedModuleClient (\<lambda>d. ()) ''sub1'' 3
      \<lparr>remote = [requestFailed 404, moduleFound None ''Creating'',
                  moduleFound None ''Succeeded'', moduleFound None ''Succeeded''],
       calls = []\<rparr> moduleConfig) = None"
    by (rule scripted_success)
  from module_create_polls_until_succeeded [THEN conjunct1, THEN mp, OF ok]
  obtain w2 k existing err w1 where
    g: "doGet scriptedModuleClient
      \<lparr>remote = [requestFailed 404, moduleFound None ''Creating'',
                  moduleFound None ''Succeeded'', moduleFound None ''Succeeded''],
       calls = []\<rparr>
      (NewPowerShell72ModuleID ''sub1'' ''rg1'' ''account1'' ''Az.Accounts'') = ((existing, err), w1)"
    and cu: "doCreateOrUpdate scriptedModuleClient w1
      (NewPowerShell72ModuleID ''sub1'' ''rg1'' ''account1'' ''Az.Accounts'') () = (None, w2)"
    and k: "k < 3"
    and s: "obs_state (refreshRuns (moduleRefresh scriptedModuleClient
          (NewPowerShell72ModuleID ''sub1'' ''rg1'' ''account1'' ''Az.Accounts'')) 3 w2 ! k) =
         ''Succeeded''"
    unfolding moduleConfig_id by (elim exE conjE)
  from doGet_calls [OF g] doCreateOrUpdate_calls [OF cu]
  have c: "calls w2 =
      [GetCall (NewPowerShell72ModuleID ''sub1'' ''rg1'' ''account1'' ''Az.Accounts''),
       CreateOrUpdateCall (NewPowerShell72ModuleID ''sub1'' ''rg1'' ''account1'' ''Az.Accounts'')]"
    by simp
  from c k s show "\<exists>w2 k.
       calls w2 = [GetCall (NewPowerShell72ModuleID ''sub1'' ''rg1'' ''account1'' ''Az.Accounts''),
                   CreateOrUpdateCall (NewPowerShell72ModuleID ''sub1'' ''rg1'' ''account1'' ''Az.Accounts'')] \<and>
       k < 3 \<and>
       obs_state (refreshRuns (moduleRefresh scriptedModuleClient
          (NewPowerShell72ModuleID ''sub1'' ''rg1'' ''account1'' ''Az.Accounts'')) 3 w2 ! k) =
         ''Succeeded''"
    by (intro exI conjI)
next
  let ?id = "NewPowerShell72ModuleID ''sub1'' ''rg1'' ''account1'' ''Az.Accounts''"
  let ?w2 = "\<lparr>remote = [moduleFound None ''Creating'', moduleFailed ''Failed'' ''boom''],
              calls = [GetCall ?id, CreateOrUpdateCall ?id]\<rparr>"
  have started: "\<exists>existing err w1.
      doGet scriptedModuleClient
        \<lparr>remote = [requestFailed 404, moduleFound None ''Creating'', moduleFailed ''Failed'' ''boom''],
         calls = []\<rparr>
        (NewPowerShell72ModuleID ''sub1'' (GetString moduleConfig ''resource_group_name'')
           (GetString moduleConfig ''automation_account_name'') (GetString moduleConfig ''name'')) =
        ((existing, err), w1) \<and>
      (err = None \<or> WasNotFound (HttpResponse existing)) \<and>
      (WasNotFound (HttpResponse existing) \<or> isGlobalModule existing) \<and>
      doCreateOrUpdate scriptedModuleClient w1
        (NewPowerShell72ModuleID ''sub1'' (GetString moduleConfig ''resource_group_name'')
           (GetString moduleConfig ''automation_account_name'') (GetString moduleConfig ''name''))
        ((\<lambda>d. ()) moduleConfig) = (None, ?w2)"
    by (intro exI) (rule scripted_started)
  have runs: "refreshRuns (moduleRefresh scriptedModuleClient
       (NewPowerShell72ModuleID ''sub1'' (GetString moduleConfig ''resource_group_name'')
          (GetString moduleConfig ''automation_account_name'') (GetString moduleConfig ''name'')))
     (Suc (Suc 0)) ?w2 =
     [(''Creating'', None,
       \<lparr>remote = [moduleFailed ''Failed'' ''boom''],
        calls = [GetCall ?id, CreateOrUpdateCall ?id, GetCall ?id]\<rparr>),
      (''Failed'', Some (ModuleErrorMessage ''boom''),
       \<lparr>remote = [], calls = [GetCall ?id, CreateOrUpdateCall ?id, GetCall ?id, GetCall ?id]\<rparr>)]"
    unfolding scripted_runs
    by (simp add: moduleFound_def moduleFailed_def reportedProvisioningState_def
        reportedErrorMessage_def)
  have hyp: "(\<exists>existing err w1.
      doGet scriptedModuleClient
        \<lparr>remote = [requestFailed 404, moduleFound None ''Creating'', moduleFailed ''Failed'' ''boom''],
         calls = []\<rparr>
        (NewPowerShell72ModuleID ''sub1'' (GetString moduleConfig ''resource_group_name'')
           (GetString moduleConfig ''automation_account_name'') (GetString moduleConfig ''name'')) =
        ((existing, err), w1) \<and>
      (err = None \<or> WasNotFound (HttpResponse existing)) \<and>
      (WasNotFound (HttpResponse existing) \<or> isGlobalModule existing) \<and>
      doCreateOrUpdate scriptedModuleClient w1
        (NewPowerShell72ModuleID ''sub1'' (GetString moduleConfig ''resource_group_name'')
           (GetString moduleConfig ''automation_account_name'') (GetString moduleConfig ''name''))
        ((\<lambda>d. ()) moduleConfig) = (None, ?w2)) \<and>
     Suc 0 < Suc (Suc 0) \<and>
     (\<forall>j<Suc 0. obs_error (refreshRuns (moduleRefresh scriptedModuleClient
       (NewPowerShell72ModuleID ''sub1'' (GetString moduleConfig ''resource_group_name'')
          (GetString moduleConfig ''automation_account_name'') (GetString moduleConfig ''name'')))
       (Suc (Suc 0)) ?w2 ! j) = None \<and>
       obs_state (refreshRuns (moduleRefresh scriptedModuleClient
       (NewPowerShell72ModuleID ''sub1'' (GetString moduleConfig ''resource_group_name'')
          (GetString moduleConfig ''automation_account_name'') (GetString moduleConfig ''name'')))
       (Suc (Suc 0)) ?w2 ! j) \<in> set pendingProvisioningStates) \<and>
     obs_error (refreshRuns (moduleRefresh scriptedModuleClient
       (NewPowerShell72ModuleID ''sub1'' (GetString moduleConfig ''resource_group_name'')
          (GetString moduleConfig ''automation_account_name'') (GetString moduleConfig ''name'')))
       (Suc (Suc 0)) ?w2 ! Suc 0) = Some (ModuleErrorMessage ''boom'')"
    unfolding runs using started
    by (simp add: obs_error_def obs_state_def pendingProvisioningStates_def)
  from module_create_polls_until_succeeded
    [THEN conjunct2, THEN conjunct1, THEN mp, OF hyp, THEN conjunct1,
      THEN arg_cong [where f = fst]]
  show "fst (resourceAutomationPowerShell72ModuleCreate scriptedModuleClient (\<lambda>d. ()) ''sub1''
      (Suc (Suc 0))
      \<lparr>remote = [requestFailed 404, moduleFound None ''Creating'', moduleFailed ''Failed'' ''boom''],
       calls = []\<rparr> moduleConfig) =
     Some (WaitingForProvisioning ''Az.Accounts'' (ModuleErrorMessage ''boom''))"
    unfolding fst_conv scripted_id .
next
  let ?id = "NewPowerShell72ModuleID ''sub1'' ''rg1'' ''account1'' ''Az.Accounts''"
  let ?w2 = "\<lparr>remote = [moduleFound None ''Creating'', moduleFound None ''Updating''],
              calls = [GetCall ?id, CreateOrUpdateCall ?id]\<rparr>"
  have started: "\<exists>existing err w1.
      doGet scriptedModuleClient
        \<lparr>remote = [requestFailed 404, moduleFound None ''Creating'', moduleFound None ''Updating''],
         calls = []\<rparr>
        (NewPowerShell72ModuleID ''sub1'' (GetString moduleConfig ''resource_group_name'')
           (GetString moduleConfig ''automation_account_name'') (GetString moduleConfig ''name'')) =
        ((existing, err), w1) \<and>
      (err = None \<or> WasNotFound (HttpResponse existing)) \<and>
      (WasNotFound (HttpResponse existing) \<or> isGlobalModule existing) \<and>
      doCreateOrUpdate scriptedModuleClient w1
        (NewPowerShell72ModuleID ''sub1'' (GetString moduleConfig ''resource_group_name'')
           (GetString moduleConfig ''automation_account_name'') (GetString moduleConfig ''name''))
        ((\<lambda>d. ()) moduleConfig) = (None, ?w2)"
    by (intro exI) (rule scripted_started)
  have runs: "refreshRuns (moduleRefresh scriptedModuleClient
       (NewPowerShell72ModuleID ''sub1'' (GetString moduleConfig ''resource_group_name'')
          (GetString moduleConfig ''automation_account_name'') (GetString moduleConfig ''name'')))
     (Suc (Suc 0)) ?w2 =
     [(''Creating'', None,
       \<lparr>remote = [moduleFound None ''Updating''],
        calls = [GetCall ?id, CreateOrUpdateCall ?id, GetCall ?id]\<rparr>),
      (''Updating'', None,
       \<lparr>remote = [], calls = [GetCall ?id, CreateOrUpdateCall ?id, GetCall ?id, GetCall ?id]\<rparr>)]"
    unfolding scripted_runs
    by (simp add: moduleFound_def reportedProvisioningState_def reportedErrorMessage_def)
  have hyp: "(\<exists>existing err w1.
      doGet scriptedModuleClient
        \<lparr>remote = [requestFailed 404, moduleFound None ''Creating'', moduleFound None ''Updating''],
         calls = []\<rparr>
        (NewPowerShell72ModuleID ''sub1'' (GetString moduleConfig ''resource_group_name'')
           (GetString moduleConfig ''automation_account_name'') (GetString moduleConfig ''name'')) =
        ((existing, err), w1) \<and>
      (err = None \<or> WasNotFound (HttpResponse existing)) \<and>
      (WasNotFound (HttpResponse existing) \<or> isGlobalModule existing) \<and>
      doCreateOrUpdate scriptedModuleClient w1
        (NewPowerShell72ModuleID ''sub1'' (GetString moduleConfig ''resource_group_name'')
           (GetString moduleConfig ''automation_account_name'') (GetString moduleConfig ''name''))
        ((\<lambda>d. ()) moduleConfig) = (None, ?w2)) \<and>
     (\<forall>j<Suc (Suc 0). obs_error (refreshRuns (moduleRefresh scriptedModuleClient
       (NewPowerShell72ModuleID ''sub1'' (GetString moduleConfig ''resource_group_name'')
          (GetString moduleConfig ''automation_account_name'') (GetString moduleConfig ''name'')))
       (Suc (Suc 0)) ?w2 ! j) = None \<and>
       obs_state (refreshRuns (moduleRefresh scriptedModuleClient
       (NewPowerShell72ModuleID ''sub1'' (GetString moduleConfig ''resource_group_name'')
          (GetString moduleConfig ''automation_account_name'') (GetString moduleConfig ''name'')))
       (Suc (Suc 0)) ?w2 ! j) \<in> set pendingProvisioningStates)"
    unfolding runs using started
    by (simp add: obs_error_def obs_state_def pendingProvisioningStates_def less_Suc_eq)
  from module_create_polls_until_succeeded
    [THEN conjunct2, THEN conjunct2, THEN conjunct1, THEN mp, OF hyp,
      THEN arg_cong [where f = fst]]
  show "fst (resourceAutomationPowerShell72ModuleCreate scriptedModuleClient (\<lambda>d. ()) ''sub1''
      (Suc (Suc 0))
      \<lparr>remote = [requestFailed 404, moduleFound None ''Creating'', moduleFound None ''Updating''],
       calls = []\<rparr> moduleConfig) =
     Some (WaitingForProvisioning ''Az.Accounts'' TimeoutError)"
    unfolding fst_conv scripted_id .
next
  have got: "snd (fst (doGet scriptedModuleClient
      \<lparr>remote = [moduleFound None ''Creating''], calls = []\<rparr>
      (NewPowerShell72ModuleID ''sub1'' (GetString moduleConfig ''resource_group_name'')
         (GetString moduleConfig ''automation_account_name'') (GetString moduleConfig ''name'')))) = None"
    by (simp add: example_defs operation_defs)
  from module_create_polls_until_succeeded
    [THEN conjunct2, THEN conjunct2, THEN conjunct2, THEN conjunct2, THEN spec, THEN mp, OF got]
  show "fst (snd (fst (moduleRefresh scriptedModuleClient
      (NewPowerShell72ModuleID ''sub1'' ''rg1'' ''account1'' ''Az.Accounts'')
      \<lparr>remote = [moduleFound None ''Creating''], calls = []\<rparr>))) = ''Creating''"
    by (simp add: moduleConfig_id example_defs operation_defs reportedProvisioningState_def)
qed

section \<open>Validation before the request\<close>

lemma Validate_name_type:
  "Validate scriptName
     [\<lparr>con_Target = ''scriptName.Name'', con_Name = Null, con_Rule = True\<rparr>,
      \<lparr>con_Target = ''scriptName.Type'', con_Name = Null, con_Rule = True\<rparr>] =
   (if scn_Name scriptName = None then
      Some (ValidationFailure ''scriptName.Name'' ''value can not be null; required parameter'')
    else if scn_Type scriptName = None then
      Some (ValidationFailure ''scriptName.Type'' ''value can not be null; required parameter'')
    else None)"
  by (auto simp: fieldOf_def split: option.splits)

lemma body_events_subset:
  "set (snd (snd (CheckNameAvailability_body client rg cl db scriptName))) \<subseteq>
     {PrepareRequest, SendRequest, RespondToRequest}"
  by (auto simp: CheckNameAvailability_body_def split: option.splits sum.splits prod.splits)

text \<open>
  C10: when the name or the type of the request is \<open>nil\<close>, \<open>CheckNameAvailability\<close> returns
  a validation error and the zero result, and neither prepares nor sends a request; when both
  are set, the request is prepared, and it is sent exactly when preparing it succeeded.
\<close>

theorem CheckNameAvailability_validates_first:
  "(scn_Name scriptName = None \<or> scn_Type scriptName = None \<longrightarrow>
      (\<exists>failure. fst (snd (CheckNameAvailability tracing client rg cl db scriptName)) =
         Some (ValidationError ''kusto.ScriptsClient'' ''CheckNameAvailability'' failure)) \<and>
      fst (CheckNameAvailability tracing client rg cl db scriptName) = zeroCheckNameResult \<and>
      PrepareRequest \<notin> set (snd (snd (CheckNameAvailability tracing client rg cl db scriptName))) \<and>
      SendRequest \<notin> set (snd (snd (CheckNameAvailability tracing client rg cl db scriptName)))) \<and>
   (scn_Name scriptName \<noteq> None \<and> scn_Type scriptName \<noteq> None \<longrightarrow>
      PrepareRequest \<in> set (snd (snd (CheckNameAvailability tracing client rg cl db scriptName))) \<and>
      (SendRequest \<in> set (snd (snd (CheckNameAvailability tracing client rg cl db scriptName)))
         \<longleftrightarrow> \<not> isl (CheckNameAvailabilityPreparer client rg cl db scriptName)))"
proof (intro conjI impI)
  assume nil: "scn_Name scriptName = None \<or> scn_Type scriptName = None"
  then obtain failure where v: "Validate scriptName
     [\<lparr>con_Target = ''scriptName.Name'', con_Name = Null, con_Rule = True\<rparr>,
      \<lparr>con_Target = ''scriptName.Type'', con_Name = Null, con_Rule = True\<rparr>] = Some failure"
    unfolding Validate_name_type by (cases "scn_Name scriptName = None") auto
  then have body: "CheckNameAvailability_body client rg cl db scriptName =
      (zeroCheckNameResult,
       Some (ValidationError ''kusto.ScriptsClient'' ''CheckNameAvailability'' failure), [])"
    by (simp add: CheckNameAvailability_body_def del: Validate.simps)
  then show "\<exists>failure. fst (snd (CheckNameAvailability tracing client rg cl db scriptName)) =
         Some (ValidationError ''kusto.ScriptsClient'' ''CheckNameAvailability'' failure)"
    by (simp add: CheckNameAvailability_def Let_def)
  from body show "fst (CheckNameAvailability tracing client rg cl db scriptName) = zeroCheckNameResult"
    by (simp add: CheckNameAvailability_def Let_def)
  from body show "PrepareRequest \<notin> set (snd (snd (CheckNameAvailability tracing client rg cl db scriptName)))"
    by (simp add: CheckNameAvailability_def Let_def)
  from body show "SendRequest \<notin> set (snd (snd (CheckNameAvailability tracing client rg cl db scriptName)))"
    by (simp add: CheckNameAvailability_def Let_def)
next
  assume set: "scn_Name scriptName \<noteq> None \<and> scn_Type scriptName \<noteq> None"
  then have v: "Validate scriptName
     [\<lparr>con_Target = ''scriptName.Name'', con_Name = Null, con_Rule = True\<rparr>,
      \<lparr>con_Target = ''scriptName.Type'', con_Name = Null, con_Rule = True\<rparr>] = None"
    unfolding Validate_name_type by simp
  then have prep: "PrepareRequest \<in> set (snd (snd (CheckNameAvailability_body client rg cl db scriptName)))"
    and send: "SendRequest \<in> set (snd (snd (CheckNameAvailability_body client rg cl db scriptName)))
       \<longleftrightarrow> \<not> isl (CheckNameAvailabilityPreparer client rg cl db scriptName)"
    by (auto simp: CheckNameAvailability_body_def simp del: Validate.simps
        split: sum.splits prod.splits option.splits)
  from prep show "PrepareRequest \<in> set (snd (snd (CheckNameAvailability tracing client rg cl db scriptName)))"
    by (auto simp: CheckNameAvailability_def Let_def split: prod.splits)
  from send show "SendRequest \<in> set (snd (snd (CheckNameAvailability tracing client rg cl db scriptName)))
         \<longleftrightarrow> \<not> isl (CheckNameAvailabilityPreparer client rg cl db scriptName)"
    by (auto simp: CheckNameAvailability_def Let_def split: prod.splits)
qed

theorem CheckNameAvailability_validates_first_witness:
  "(scn_Name \<lparr>scn_Name = None, scn_Type = Some ''Microsoft.Kusto/clusters/databases/scripts''\<rparr> = None \<and>
    PrepareRequest \<notin> set (snd (snd (CheckNameAvailability True okTransport ''rg1'' ''cluster1'' ''db1''
       \<lparr>scn_Name = None, scn_Type = Some ''Microsoft.Kusto/clusters/databases/scripts''\<rparr>))) \<and>
    SendRequest \<notin> set (snd (snd (CheckNameAvailability True okTransport ''rg1'' ''cluster1'' ''db1''
       \<lparr>scn_Name = None, scn_Type = Some ''Microsoft.Kusto/clusters/databases/scripts''\<rparr>)))) \<and>
   (\<not> isl (CheckNameAvailabilityPreparer okTransport ''rg1'' ''cluster1'' ''db1''
       \<lparr>scn_Name = Some ''script1'', scn_Type = Some ''Microsoft.Kusto/clusters/databases/scripts''\<rparr>) \<and>
    PrepareRequest \<in> set (snd (snd (CheckNameAvailability True okTransport ''rg1'' ''cluster1'' ''db1''
       \<lparr>scn_Name = Some ''script1'', scn_Type = Some ''Microsoft.Kusto/clusters/databases/scripts''\<rparr>))) \<and>
    SendRequest \<in> set (snd (snd (CheckNameAvailability True okTransport ''rg1'' ''cluster1'' ''db1''
       \<lparr>scn_Name = Some ''script1'', scn_Type = Some ''Microsoft.Kusto/clusters/databases/scripts''\<rparr>))))"
proof -
  have nil: "scn_Name \<lparr>scn_Name = None, scn_Type = Some ''Microsoft.Kusto/clusters/databases/scripts''\<rparr> = None \<or>
      scn_Type \<lparr>scn_Name = None, scn_Type = Some ''Microsoft.Kusto/clusters/databases/scripts''\<rparr> = None"
    by simp
  have both: "scn_Name \<lparr>scn_Name = Some ''script1'', scn_Type = Some ''Microsoft.Kusto/clusters/databases/scripts''\<rparr> \<noteq> None \<and>
      scn_Type \<lparr>scn_Name = Some ''script1'', scn_Type = Some ''Microsoft.Kusto/clusters/databases/scripts''\<rparr> \<noteq> None"
    by simp
  have prepared: "\<not> isl (CheckNameAvailabilityPreparer okTransport ''rg1'' ''cluster1'' ''db1''
       \<lparr>scn_Name = Some ''script1'', scn_Type = Some ''Microsoft.Kusto/clusters/databases/scripts''\<rparr>)"
    by (simp add: okTransport_def)
  from CheckNameAvailability_validates_first
         [THEN conjunct1, THEN mp, OF nil, of True okTransport "''rg1''" "''cluster1''" "''db1''"]
       CheckNameAvailability_validates_first
         [THEN conjunct2, THEN mp, OF both, of True okTransport "''rg1''" "''cluster1''" "''db1''"]
       prepared
  show ?thesis
    by simp
qed

lemma CheckNameAvailability_example:
  "CheckNameAvailability True okTransport ''rg1'' ''cluster1'' ''db1''
     \<lparr>scn_Name = Some ''script1'', scn_Type = Some ''Microsoft.Kusto/clusters/databases/scripts''\<rparr> =
   (zeroCheckNameResult\<lparr>cnr_Response := Some 200, cnr_NameAvailable := Some True\<rparr>, None,
    [StartSpan, PrepareRequest, SendRequest, RespondToRequest, EndSpan 200])"
  "CheckNameAvailability True okTransport ''rg1'' ''cluster1'' ''db1''
     \<lparr>scn_Name = Some ''script1'', scn_Type = None\<rparr> =
   (zeroCheckNameResult,
    Some (ValidationError ''kusto.ScriptsClient'' ''CheckNameAvailability''
            (ValidationFailure ''scriptName.Type'' ''value can not be null; required parameter'')),
    [StartSpan, EndSpan (- 1)])"
  by (simp_all add: CheckNameAvailability_def CheckNameAvailability_body_def okTransport_def
      fieldOf_def zeroCheckNameResult_def)

section \<open>Loading a list page by page\<close>









end
